theory Spec2Isabelle
  imports Complex_Main "HOL-Library.Sublist" "HOL-Library.AList"
begin

section \<open>JavaScript values and objects\<close>

text \<open>
  The values the console stores in its form state and in its records. A \<open>File\<close> object
  carries its name and an identifier of its contents. Numbers are rationals, with the
  not-a-number value apart.
\<close>

datatype jsvalue =
    Undefined
  | Null
  | Bool bool
  | Num rat
  | NaN
  | Str string
  | File string nat
  | Arr "jsvalue list"

type_synonym jsobject = "(string \<times> jsvalue) list"

text \<open>\<open>!!value\<close>: the values JavaScript counts as true.\<close>

fun truthy :: "jsvalue \<Rightarrow> bool" where
  "truthy Undefined = False"
| "truthy Null = False"
| "truthy (Bool b) = b"
| "truthy (Num q) = (q \<noteq> 0)"
| "truthy NaN = False"
| "truthy (Str s) = (s \<noteq> [])"
| "truthy (File n b) = True"
| "truthy (Arr vs) = True"

text \<open>\<open>obj[key]\<close>: a property that is not there reads as \<open>undefined\<close>.\<close>

definition getProp :: "jsobject \<Rightarrow> string \<Rightarrow> jsvalue" where
  "getProp obj key = (case map_of obj key of None \<Rightarrow> Undefined | Some v \<Rightarrow> v)"

text \<open>\<open>{...prev, [key]: v}\<close>: an existing key keeps its place, a new one goes last.\<close>

definition setprop :: "jsobject \<Rightarrow> string \<Rightarrow> jsvalue \<Rightarrow> jsobject" where
  "setprop obj key v = AList.update key v obj"

text \<open>\<open>Object.keys(obj)\<close> and \<open>for (const key in obj)\<close>: the keys in insertion order.\<close>

definition keys :: "jsobject \<Rightarrow> string list" where
  "keys obj = map fst obj"

text \<open>\<open>s.includes(sub)\<close> and \<open>s.startsWith(p)\<close> on strings.\<close>

fun strIncludes :: "string \<Rightarrow> string \<Rightarrow> bool" where
  "strIncludes [] sub = (sub = [])"
| "strIncludes (c # cs) sub = (prefix sub (c # cs) \<or> strIncludes cs sub)"

definition startsWith :: "string \<Rightarrow> string \<Rightarrow> bool" where
  "startsWith s p = prefix p s"

text \<open>\<open>xs.join(sep)\<close> on an array of strings.\<close>

fun join :: "string \<Rightarrow> string list \<Rightarrow> string" where
  "join sep [] = []"
| "join sep [x] = x"
| "join sep (x # y # ys) = x @ sep @ join sep (y # ys)"

fun isFile :: "jsvalue \<Rightarrow> bool" where
  "isFile (File n b) = True"
| "isFile v = False"

text \<open>\<open>typeof f === 'string' && f.startsWith('uploads/')\<close>\<close>

fun isUploadPath :: "jsvalue \<Rightarrow> bool" where
  "isUploadPath (Str s) = startsWith s ''uploads/''"
| "isUploadPath v = False"

fun isArray :: "jsvalue \<Rightarrow> bool" where
  "isArray (Arr vs) = True"
| "isArray v = False"

fun elems :: "jsvalue \<Rightarrow> jsvalue list" where
  "elems (Arr vs) = vs"
| "elems v = []"

section \<open>The collection registry\<close>

definition EXCLUDED_INTERNAL_COLUMNS :: "string list" where
  "EXCLUDED_INTERNAL_COLUMNS =
     [''created_at'', ''created_by'', ''updated_at'', ''updated_by'', ''password_hash'',
      ''product_line_id'']"

datatype collection_key = product_lines | products | users

record collection =
  name :: string
  apiPath :: string
  fieldList :: "string list"
  requiredFields :: "string list"
  defaultValues :: jsobject

fun initialCollections :: "collection_key \<Rightarrow> collection" where
  "initialCollections product_lines = \<lparr>
     name = ''Product Lines'',
     apiPath = ''/api/product_lines'',
     fieldList = [''id'', ''name'', ''type_of_products'', ''manufacturing_locations'',
       ''design_center'', ''product_line_manager'', ''history'', ''type_of_customers'',
       ''metiers'', ''strength'', ''weakness'', ''perspectives'', ''compliance_resource_id'',
       ''attachments_raw''] @ EXCLUDED_INTERNAL_COLUMNS,
     requiredFields = [''name'', ''product_line_manager''],
     defaultValues = [(''name'', Str []), (''type_of_products'', Str []),
       (''product_line_manager'', Str []), (''strength'', Str []), (''weakness'', Str []),
       (''attachments_raw'', Arr [])] \<rparr>"
| "initialCollections products = \<lparr>
     name = ''Products'',
     apiPath = ''/api/products'',
     fieldList = [''id'', ''product_name'', ''product_line'', ''description'',
       ''product_definition'', ''operating_environment'', ''technical_parameters'',
       ''machines_and_tooling'', ''manufacturing_strategy'', ''purchasing_strategy'',
       ''prototypes_ppap_and_sop'', ''engineering_and_testing'', ''capacity'',
       ''our_advantages'', ''gmdc_pct'', ''product_line_id'', ''customers_in_production'',
       ''customer_in_development'', ''level_of_interest_and_why'',
       ''estimated_price_per_product'', ''prod_if_customer_in_china'', ''costing_data'',
       ''product_pictures''] @ EXCLUDED_INTERNAL_COLUMNS,
     requiredFields = [''product_name'', ''product_line''],
     defaultValues = [(''product_name'', Str []), (''product_line'', Str []),
       (''description'', Str []), (''capacity'', Str []), (''gmdc_pct'', Num 0),
       (''product_pictures'', Arr [])] \<rparr>"
| "initialCollections users = \<lparr>
     name = ''Users'',
     apiPath = ''/api/users'',
     fieldList = [''id'', ''email'', ''displayName'', ''user_role''] @ EXCLUDED_INTERNAL_COLUMNS,
     requiredFields = [''email'', ''password'', ''displayName''],
     defaultValues = [(''email'', Str []), (''displayName'', Str []),
       (''user_role'', Str ''user'')] \<rparr>"

definition BASE_API_URL :: string where
  "BASE_API_URL = ''https://product-db-back.azurewebsites.net''"

definition LOGS_API_PATH :: string where
  "LOGS_API_PATH = ''/api/audit_logs''"

text \<open>The widget kind of a field, found by substring tests on its name, in this order.\<close>

definition getFieldType :: "string \<Rightarrow> string" where
  "getFieldType field =
    (if strIncludes field ''history'' \<or> strIncludes field ''description''
        \<or> strIncludes field ''strategy'' \<or> strIncludes field ''capacity''
        \<or> strIncludes field ''parameters'' \<or> strIncludes field ''tooling''
        \<or> strIncludes field ''advantages'' \<or> strIncludes field ''costing_data''
        \<or> strIncludes field ''definition'' \<or> strIncludes field ''environment''
        \<or> strIncludes field ''locations'' \<or> strIncludes field ''center''
        \<or> strIncludes field ''metiers'' \<or> strIncludes field ''strength''
        \<or> strIncludes field ''weakness'' \<or> strIncludes field ''perspectives''
        \<or> strIncludes field ''customers'' \<or> strIncludes field ''prototypes_ppap_and_sop''
        \<or> strIncludes field ''engineering_and_testing'' \<or> strIncludes field ''type_of_products''
     then ''textarea''
     else if strIncludes field ''gmdc_pct'' \<or> strIncludes field ''estimated_price'' then ''number''
     else if strIncludes field ''prod_if_customer_in_china'' then ''checkbox''
     else if strIncludes field ''product_pictures'' then ''file_image''
     else if strIncludes field ''attachments_raw'' then ''file_attachment''
     else ''text'')"

section \<open>Application state\<close>

record cache_entry =
  data :: "jsobject list"
  timestamp :: int

datatype cache_key = CollKey collection_key | productLinesList

text \<open>
  What goes over the network, and in which order things are called: every \<open>fetch\<close>
  the code issues, every alert it raises (title, text, icon) and every call of a
  mutation's success callback is appended to the state's \<open>trace\<close>.
\<close>

datatype form_entry =
    Binary string string nat
  | Text string jsvalue

datatype request_body =
    NoBody
  | JsonBody jsobject
  | FormBody "form_entry list"

record request =
  req_method :: string
  req_url :: string
  req_contentTypeJson :: bool
  req_authorization :: string
  req_body :: request_body

datatype event =
    NetCall request
  | SwalFire string string string
  | SuccessCallback

record app_state =
  authToken :: "string option"
  userData :: "jsobject option"
  isInitialLoad :: bool
  items :: "jsobject list"
  allProductLines :: "jsobject list"
  logs :: "jsobject list"
  activeCollectionKey :: collection_key
  newItemData :: jsobject
  itemFilterTerm :: string
  activeFilterField :: "string option"
  isLoading :: bool
  apiError :: "string option"
  dataCache :: "cache_key \<rightharpoonup> cache_entry"
  isModalOpen :: bool
  modalData :: "jsobject option"
  isFormVisible :: bool
  sessionStorage :: "string \<rightharpoonup> string"
  trace :: "event list"

text \<open>\<open>!authToken\<close>: a token that is \<open>null\<close> or the empty string.\<close>

definition noToken :: "string option \<Rightarrow> bool" where
  "noToken t = (case t of None \<Rightarrow> True | Some v \<Rightarrow> v = [])"

definition bearer :: "string option \<Rightarrow> string" where
  "bearer t = ''Bearer '' @ (case t of None \<Rightarrow> ''null'' | Some v \<Rightarrow> v)"

definition emptyEntry :: cache_entry where
  "emptyEntry = \<lparr> data = [], timestamp = 0 \<rparr>"

section \<open>fetchData: what needs a network read\<close>

definition cacheTTL :: int where
  "cacheTTL = 300000"

text \<open>
  Every handler is a closure over the values of the render that created it: \<open>r\<close> is
  that render's state, and the state updates go to the live state \<open>s\<close>.
\<close>

definition shouldFetchMainData :: "app_state \<Rightarrow> bool \<Rightarrow> int \<Rightarrow> bool" where
  "shouldFetchMainData r isUserAction currentTimestamp =
     (isUserAction
      \<or> (case dataCache r (CollKey (activeCollectionKey r)) of
            None \<Rightarrow> True
          | Some e \<Rightarrow> currentTimestamp - timestamp e > cacheTTL))"

definition shouldFetchProductLines :: "app_state \<Rightarrow> bool \<Rightarrow> int \<Rightarrow> bool" where
  "shouldFetchProductLines r isUserAction currentTimestamp =
     (isUserAction
      \<or> (case dataCache r productLinesList of
            None \<Rightarrow> True
          | Some e \<Rightarrow> currentTimestamp - timestamp e > cacheTTL))"

definition shouldFetchLogs :: "bool \<Rightarrow> bool" where
  "shouldFetchLogs isUserAction = isUserAction"

section \<open>Network responses and safeFetch\<close>

text \<open>
  What a \<open>fetch\<close> can come back with. The call itself rejects (a network failure, with the
  message of the error), or it gives a response: a 2xx one, whose body either does not
  parse (with the parser's message) or is the array of records the API returns, or a
  response that is not 2xx, with its status, whose body does not parse or is an object
  with an optional \<open>message\<close> string. A 2xx body that parses to anything but an
  array of records is not part of this model.
\<close>

datatype 'a parsed = Malformed string | Parsed 'a

datatype response =
    NetworkFailure string
  | Okay "(jsobject list) parsed"
  | NotOk nat "(string option) parsed"

datatype 'a promise = Resolved 'a | Rejected string

text \<open>\<open>errorData.message || fallback\<close>\<close>

definition messageOr :: "string option \<Rightarrow> string \<Rightarrow> string" where
  "messageOr m fallback = (case m of None \<Rightarrow> fallback | Some t \<Rightarrow> if t \<noteq> [] then t else fallback)"

text \<open>
  \<open>safeFetch\<close> gives the promise it returns and the message it hands to
  \<open>setApiError\<close>, if any. Everything thrown inside the \<open>try\<close> is caught, recorded
  and turned into the empty array. The last statement of the \<open>try\<close> is
  \<open>return response.json()\<close> with no \<open>await\<close>: the promise of the body leaves the
  \<open>try\<close> before it settles, so a 2xx body that does not parse rejects the promise
  \<open>safeFetch\<close> returns, past its \<open>catch\<close>.
\<close>

fun safeFetch :: "string \<Rightarrow> response \<Rightarrow> (jsobject list) promise \<times> string option" where
  "safeFetch errorMessage (NetworkFailure m) = (Resolved [], Some m)"
| "safeFetch errorMessage (NotOk status b) =
     (let thrown =
        (if status \<noteq> 204
         then (case b of Malformed pm \<Rightarrow> pm | Parsed errorData \<Rightarrow> messageOr errorData errorMessage)
         else errorMessage)
      in (Resolved [], Some thrown))"
| "safeFetch errorMessage (Okay b) =
     (case b of Malformed pm \<Rightarrow> (Rejected pm, None) | Parsed xs \<Rightarrow> (Resolved xs, None))"

text \<open>\<open>setApiError(error.message)\<close>, when \<open>safeFetch\<close> has caught something.\<close>

definition recordError :: "string option \<Rightarrow> app_state \<Rightarrow> app_state" where
  "recordError e s = (case e of None \<Rightarrow> s | Some m \<Rightarrow> s\<lparr>apiError := Some m\<rparr>)"

section \<open>handleLogout\<close>

definition getRequest :: "string option \<Rightarrow> string \<Rightarrow> event" where
  "getRequest token path =
     NetCall \<lparr> req_method = ''GET'', req_url = BASE_API_URL @ path, req_contentTypeJson = False,
       req_authorization = bearer token, req_body = NoBody \<rparr>"

definition initialCache :: "cache_key \<rightharpoonup> cache_entry" where
  "initialCache =
     [CollKey product_lines \<mapsto> emptyEntry, CollKey products \<mapsto> emptyEntry,
      productLinesList \<mapsto> emptyEntry]"

text \<open>
  The logout request is sent when the closure holds a token; whether it succeeds or not,
  the session, the view and the whole cache are cleared.
\<close>

definition handleLogout :: "app_state \<Rightarrow> app_state \<Rightarrow> app_state" where
  "handleLogout r s =
     (let s1 =
        (if \<not> noToken (authToken r)
         then s\<lparr>trace := trace s @
                [NetCall \<lparr> req_method = ''POST'', req_url = BASE_API_URL @ ''/api/auth/logout'',
                   req_contentTypeJson = False, req_authorization = bearer (authToken r),
                   req_body = NoBody \<rparr>]\<rparr>
         else s)
      in s1\<lparr> authToken := None, userData := None,
             sessionStorage := (sessionStorage s1)(''authToken'' := None, ''userData'' := None),
             items := [], logs := [], dataCache := initialCache \<rparr>)"

section \<open>fetchData\<close>

datatype source = MainSrc | LogsSrc | LinesSrc

text \<open>
  A call of \<open>fetchData\<close> that has reached \<open>await Promise.all\<close>: the render it closes
  over, its argument and its reading of the clock.
\<close>

record pending_fetch =
  pf_env :: app_state
  pf_isUserAction :: bool
  pf_currentTimestamp :: int

definition cachedKey :: "pending_fetch \<Rightarrow> collection_key" where
  "cachedKey p = activeCollectionKey (pf_env p)"

fun needed :: "pending_fetch \<Rightarrow> source \<Rightarrow> bool" where
  "needed p MainSrc = shouldFetchMainData (pf_env p) (pf_isUserAction p) (pf_currentTimestamp p)"
| "needed p LogsSrc = (shouldFetchLogs (pf_isUserAction p) \<or> isInitialLoad (pf_env p))"
| "needed p LinesSrc =
     shouldFetchProductLines (pf_env p) (pf_isUserAction p) (pf_currentTimestamp p)"

fun sourcePath :: "pending_fetch \<Rightarrow> source \<Rightarrow> string" where
  "sourcePath p MainSrc = apiPath (initialCollections (cachedKey p))"
| "sourcePath p LogsSrc = LOGS_API_PATH"
| "sourcePath p LinesSrc = apiPath (initialCollections product_lines)"

fun sourceErrorMessage :: "pending_fetch \<Rightarrow> source \<Rightarrow> string" where
  "sourceErrorMessage p MainSrc =
     ''Failed to fetch '' @ name (initialCollections (cachedKey p)) @ '' data.''"
| "sourceErrorMessage p LogsSrc = ''Failed to fetch Audit Logs.''"
| "sourceErrorMessage p LinesSrc = ''Failed to fetch Product Lines data.''"

text \<open>\<open>dataCache[key]?.data || []\<close>, read from the closure's cache.\<close>

definition cachedData :: "app_state \<Rightarrow> cache_key \<Rightarrow> jsobject list" where
  "cachedData r k = (case dataCache r k of None \<Rightarrow> [] | Some e \<Rightarrow> data e)"

text \<open>A source that needs no network read resolves at once, from the closure.\<close>

fun resolvedFromClosure :: "pending_fetch \<Rightarrow> source \<Rightarrow> jsobject list" where
  "resolvedFromClosure p MainSrc = cachedData (pf_env p) (CollKey (cachedKey p))"
| "resolvedFromClosure p LogsSrc = logs (pf_env p)"
| "resolvedFromClosure p LinesSrc = cachedData (pf_env p) productLinesList"

text \<open>The three elements of \<open>fetchPromises\<close>, as they settle.\<close>

definition fetchPromises :: "pending_fetch \<Rightarrow> (source \<Rightarrow> response) \<Rightarrow> source \<Rightarrow> (jsobject list) promise" where
  "fetchPromises p resp src =
     (if needed p src then fst (safeFetch (sourceErrorMessage p src) (resp src))
      else Resolved (resolvedFromClosure p src))"

text \<open>
  The part of \<open>fetchData\<close> that runs when it is called, up to \<open>await Promise.all\<close>:
  the guard, the loading flag, and one request for each source that needs one, pushed in
  the order main data, logs, product lines.
\<close>

definition fetchData :: "app_state \<Rightarrow> bool \<Rightarrow> int \<Rightarrow> app_state \<Rightarrow> app_state \<times> pending_fetch option" where
  "fetchData r isUserAction now s =
     (if noToken (authToken r) \<or> userData r = None
      then (s\<lparr>isLoading := False\<rparr>, None)
      else
        (let s1 = (if isInitialLoad r \<or> isUserAction then s\<lparr>isLoading := True\<rparr> else s);
             s2 = s1\<lparr>apiError := None\<rparr>;
             p = \<lparr> pf_env = r, pf_isUserAction = isUserAction, pf_currentTimestamp = now \<rparr>;
             calls = map (\<lambda>src. getRequest (authToken r) (sourcePath p src))
                       (filter (needed p) [MainSrc, LogsSrc, LinesSrc])
         in (s2\<lparr>trace := trace s2 @ calls\<rparr>, Some p)))"

text \<open>The body of the \<open>try\<close>, once every promise has resolved.\<close>

definition fetchData_try :: "pending_fetch \<Rightarrow> (source \<Rightarrow> jsobject list) \<Rightarrow> app_state \<Rightarrow> app_state" where
  "fetchData_try p fetched s =
     (let r = pf_env p;
          fetchedItems = fetched MainSrc;
          fetchedLogs = fetched LogsSrc;
          fetchedProductLines = fetched LinesSrc;
          finalItems =
            (if length fetchedItems > 0 then fetchedItems
             else cachedData r (CollKey (cachedKey p)));
          s1 = s\<lparr>items := finalItems\<rparr>;
          s2 = (if needed p MainSrc \<and> length fetchedItems > 0
                then s1\<lparr>dataCache := (dataCache s1)(CollKey (cachedKey p) \<mapsto>
                        \<lparr> data = fetchedItems, timestamp = pf_currentTimestamp p \<rparr>)\<rparr>
                else s1);
          finalProductLines =
            (if length fetchedProductLines > 0 then fetchedProductLines
             else cachedData r productLinesList);
          s3 = s2\<lparr>allProductLines := finalProductLines\<rparr>;
          s4 = (if needed p LinesSrc \<and> length fetchedProductLines > 0
                then s3\<lparr>dataCache := (dataCache s3)(productLinesList \<mapsto>
                        \<lparr> data = fetchedProductLines, timestamp = pf_currentTimestamp p \<rparr>)\<rparr>
                else s3)
      in if needed p LogsSrc then s4\<lparr>logs := fetchedLogs\<rparr> else s4)"

definition sessionExpiredMessage :: string where
  "sessionExpiredMessage = ''Session expired or API unreachable. Please log in again.''"

text \<open>The \<open>catch\<close> of \<open>fetchData\<close>, with the message of the rejection.\<close>

definition fetchData_catch :: "pending_fetch \<Rightarrow> string \<Rightarrow> app_state \<Rightarrow> app_state" where
  "fetchData_catch p message s =
     (if strIncludes message ''Failed to fetch'' \<or> strIncludes message ''Invalid or expired token''
      then (handleLogout (pf_env p) s)\<lparr>apiError := Some sessionExpiredMessage\<rparr>
      else s\<lparr>apiError := Some (if message \<noteq> [] then message
                 else ''Failed to fetch data from API. Check server status.'')\<rparr>)"

definition fetchData_finally :: "pending_fetch \<Rightarrow> app_state \<Rightarrow> app_state" where
  "fetchData_finally p s =
     (if isInitialLoad (pf_env p) \<or> pf_isUserAction p
      then s\<lparr>isLoading := False, isInitialLoad := False\<rparr>
      else s)"

text \<open>
  What the \<open>safeFetch\<close> calls of the needed sources of a list record through
  \<open>setApiError\<close>, one after the other, in the order of the list.
\<close>

fun recordErrors :: "pending_fetch \<Rightarrow> (source \<Rightarrow> response) \<Rightarrow> source list \<Rightarrow> app_state \<Rightarrow> app_state" where
  "recordErrors p resp [] s = s"
| "recordErrors p resp (src # rest) s =
     (if needed p src
      then recordErrors p resp rest
             (recordError (snd (safeFetch (sourceErrorMessage p src) (resp src))) s)
      else recordErrors p resp rest s)"

text \<open>
  The responses come back in an order the network decides. After \<open>Promise.all\<close> has
  rejected, the fetches still in flight complete all the same, and \<open>safeFetch\<close> records
  their errors.
\<close>

fun arrive :: "pending_fetch \<Rightarrow> (source \<Rightarrow> response) \<Rightarrow> (source \<Rightarrow> jsobject list) \<Rightarrow> source list \<Rightarrow> app_state \<Rightarrow> app_state" where
  "arrive p resp fetched [] s = fetchData_finally p (fetchData_try p fetched s)"
| "arrive p resp fetched (src # rest) s =
     (if needed p src
      then (case safeFetch (sourceErrorMessage p src) (resp src) of
              (Resolved v, e) \<Rightarrow> arrive p resp (fetched(src := v)) rest (recordError e s)
            | (Rejected m, e) \<Rightarrow>
                recordErrors p resp rest
                  (fetchData_finally p (fetchData_catch p m (recordError e s))))
      else arrive p resp fetched rest s)"

datatype arrival_order =
    MainLogsLines | MainLinesLogs | LogsMainLines | LogsLinesMain | LinesMainLogs | LinesLogsMain

fun arrivalList :: "arrival_order \<Rightarrow> source list" where
  "arrivalList MainLogsLines = [MainSrc, LogsSrc, LinesSrc]"
| "arrivalList MainLinesLogs = [MainSrc, LinesSrc, LogsSrc]"
| "arrivalList LogsMainLines = [LogsSrc, MainSrc, LinesSrc]"
| "arrivalList LogsLinesMain = [LogsSrc, LinesSrc, MainSrc]"
| "arrivalList LinesMainLogs = [LinesSrc, MainSrc, LogsSrc]"
| "arrivalList LinesLogsMain = [LinesSrc, LogsSrc, MainSrc]"

text \<open>
  The rest of a call of \<open>fetchData\<close>: the responses of the sources it asked for, in
  their order of arrival, then the \<open>try\<close>, or the \<open>catch\<close> at the first rejection, and
  the \<open>finally\<close>.
\<close>

definition fetchData_settle :: "pending_fetch \<Rightarrow> (source \<Rightarrow> response) \<Rightarrow> arrival_order \<Rightarrow> app_state \<Rightarrow> app_state" where
  "fetchData_settle p resp order s = arrive p resp (resolvedFromClosure p) (arrivalList order) s"

section \<open>Switching the collection\<close>

definition handleCollectionSwitch :: "collection_key \<Rightarrow> app_state \<Rightarrow> app_state" where
  "handleCollectionSwitch key s =
     s\<lparr> activeCollectionKey := key, itemFilterTerm := [], activeFilterField := None,
        isFormVisible := False \<rparr>"

text \<open>
  The effect that runs after a render in which the active key, the cache or
  \<open>fetchData\<close> has changed.
\<close>

definition collectionEffect :: "app_state \<Rightarrow> int \<Rightarrow> app_state \<Rightarrow> app_state \<times> pending_fetch option" where
  "collectionEffect r now s =
     (let s1 = s\<lparr> newItemData := defaultValues (initialCollections (activeCollectionKey r)),
                 isFormVisible := False \<rparr>
      in case dataCache r (CollKey (activeCollectionKey r)) of
           None \<Rightarrow> fetchData r True now s1
         | Some e \<Rightarrow>
             if length (data e) > 0
             then fetchData r False now (s1\<lparr>items := data e\<rparr>)
             else fetchData r True now s1)"

section \<open>handleRequest: the wire format of a mutation\<close>

definition fileFields :: "string list" where
  "fileFields = [''attachments_raw'', ''product_pictures'']"

definition hasFile :: "jsobject option \<Rightarrow> bool" where
  "hasFile body =
     (case body of
        None \<Rightarrow> False
      | Some b \<Rightarrow>
          list_ex (\<lambda>field. isArray (getProp b field) \<and> list_ex isFile (elems (getProp b field)))
            fileFields)"

text \<open>What one element of an attachment array adds to the form data.\<close>

fun fileEntry :: "string \<Rightarrow> jsvalue \<Rightarrow> form_entry list" where
  "fileEntry key (File n b) = [Binary key n b]"
| "fileEntry key fileOrPath =
     (if isUploadPath fileOrPath then [Text (key @ ''_retained'') fileOrPath] else [])"

definition formEntries :: "jsobject \<Rightarrow> string \<Rightarrow> form_entry list" where
  "formEntries b key =
     (if key \<in> set fileFields \<and> isArray (getProp b key)
      then concat (map (fileEntry key) (elems (getProp b key)))
      else if key \<notin> set fileFields \<and> getProp b key \<noteq> Null \<and> key \<noteq> ''id''
      then [Text key (getProp b key)]
      else [])"

definition formDataOf :: "jsobject \<Rightarrow> form_entry list" where
  "formDataOf b = concat (map (formEntries b) (keys b))"

definition jsonBodyOf :: "jsobject \<Rightarrow> jsobject" where
  "jsonBodyOf b =
     foldl (\<lambda>acc key.
        if key \<noteq> ''id''
        then (if key \<in> set fileFields \<and> isArray (getProp b key)
              then setprop acc key (Arr (filter isUploadPath (elems (getProp b key))))
              else setprop acc key (getProp b key))
        else acc) [] (keys b)"

definition requestBody :: "jsobject option \<Rightarrow> request_body" where
  "requestBody body =
     (if hasFile body
      then (case body of None \<Rightarrow> NoBody | Some b \<Rightarrow> FormBody (formDataOf b))
      else (case body of None \<Rightarrow> NoBody | Some b \<Rightarrow> JsonBody (jsonBodyOf b)))"

text \<open>
  \<open>handleRequest\<close> up to its \<open>await fetch\<close>: the only guard is the token of the
  closure. The success callback it is given is not called before the response, so it is
  an argument of the second half, \<open>handleRequest_settle\<close>.
\<close>

definition handleRequest :: "app_state \<Rightarrow> string \<Rightarrow> string \<Rightarrow> jsobject option \<Rightarrow> app_state \<Rightarrow> app_state" where
  "handleRequest r method path body s =
     (if noToken (authToken r) then s
      else
        (let s1 = s\<lparr>isLoading := True, apiError := None\<rparr>
         in s1\<lparr>trace := trace s1 @
              [NetCall \<lparr> req_method = method, req_url = BASE_API_URL @ path,
                 req_contentTypeJson = (\<not> hasFile body),
                 req_authorization = bearer (authToken r),
                 req_body = requestBody body \<rparr>]\<rparr>))"

section \<open>handleRequest: after the response\<close>

text \<open>The decimal digits of a status code, as \<open>${response.status}\<close> prints them.\<close>

fun showNat :: "nat \<Rightarrow> string" where
  "showNat n =
     (if n < 10 then [''0123456789'' ! n]
      else showNat (n div 10) @ [''0123456789'' ! (n mod 10)])"

text \<open>The error a response makes \<open>handleRequest\<close> throw, if any.\<close>

fun mutationError :: "response \<Rightarrow> string option" where
  "mutationError (NetworkFailure m) = Some m"
| "mutationError (Okay b) = None"
| "mutationError (NotOk status b) =
     Some (if status \<noteq> 204
           then (case b of
                   Malformed pm \<Rightarrow> pm
                 | Parsed errorData \<Rightarrow>
                     messageOr errorData
                       (''API call failed with status '' @ showNat status @ ''.''))
           else ''API call failed with status '' @ showNat status @ ''.'')"

text \<open>The callbacks the three callers pass: none (delete), the create form's, the modal's.\<close>

datatype callback = NoCallback | AfterCreate | AfterUpdate

fun runCallback :: "app_state \<Rightarrow> callback \<Rightarrow> app_state \<Rightarrow> app_state" where
  "runCallback r NoCallback s = s"
| "runCallback r AfterCreate s =
     s\<lparr> newItemData := defaultValues (initialCollections (activeCollectionKey r)),
        isFormVisible := False \<rparr>"
| "runCallback r AfterUpdate s = s\<lparr> modalData := None, isModalOpen := False \<rparr>"

definition successAlert :: "app_state \<Rightarrow> string \<Rightarrow> event list" where
  "successAlert r method =
     (let singular = butlast (name (initialCollections (activeCollectionKey r)))
      in if method = ''POST'' then [SwalFire ''Created!'' (singular @ '' successfully created.'') ''success'']
         else if method = ''PUT'' then [SwalFire ''Updated!'' (singular @ '' successfully updated.'') ''success'']
         else if method = ''DELETE'' then [SwalFire ''Deleted!'' (singular @ '' permanently removed.'') ''success'']
         else [])"

text \<open>
  \<open>handleRequest\<close> from its response on. On success: the alert, the two cache entries
  reset, the callback, then \<open>fetchData(true)\<close> of the same closure, which is not
  awaited; the \<open>finally\<close> lowers the loading flag in every case.
\<close>

definition handleRequest_settle :: "app_state \<Rightarrow> string \<Rightarrow> callback \<Rightarrow> response \<Rightarrow> int \<Rightarrow> app_state \<Rightarrow> app_state \<times> pending_fetch option" where
  "handleRequest_settle r method successCallback resp now s =
     (case mutationError resp of
        Some m \<Rightarrow>
          (s\<lparr> trace := trace s @ [SwalFire ''Error!'' m ''error''],
              apiError := Some (if m \<noteq> [] then m
                 else ''An unknown error occurred during API operation.''),
              isLoading := False \<rparr>, None)
      | None \<Rightarrow>
          (let s1 = s\<lparr>trace := trace s @ successAlert r method\<rparr>;
               s2 = s1\<lparr>dataCache := (dataCache s1)
                      (CollKey (activeCollectionKey r) \<mapsto> emptyEntry,
                       productLinesList \<mapsto> emptyEntry)\<rparr>;
               s3 = runCallback r successCallback (s2\<lparr>trace := trace s2 @ [SuccessCallback]\<rparr>);
               (s4, p) = fetchData r True now s3
           in (s4\<lparr>isLoading := False\<rparr>, p)))"

section \<open>handleCreate, handleUpdate, handleDelete\<close>

text \<open>The test of \<open>requiredFields.every\<close> in \<open>handleCreate\<close>.\<close>

definition requiredOk :: "collection_key \<Rightarrow> jsobject \<Rightarrow> string \<Rightarrow> bool" where
  "requiredOk key newItem field =
     (let v = getProp newItem field
      in if key = products \<and> field = ''prod_if_customer_in_china'' then True
         else if strIncludes (getFieldType field) ''file'' then isArray v \<and> length (elems v) > 0
         else truthy v)"

text \<open>The test of \<open>requiredFields.filter\<close> that builds the message.\<close>

definition reportedMissing :: "collection_key \<Rightarrow> jsobject \<Rightarrow> string \<Rightarrow> bool" where
  "reportedMissing key newItem field =
     (let v = getProp newItem field
      in if key = products \<and> field = ''prod_if_customer_in_china'' then False
         else if strIncludes (getFieldType field) ''file'' then isArray v \<and> length (elems v) = 0
         else \<not> truthy v)"

definition allowedFields :: "collection \<Rightarrow> string list" where
  "allowedFields ac = filter (\<lambda>field. field \<notin> set EXCLUDED_INTERNAL_COLUMNS) (fieldList ac)"

text \<open>
  The payload of a create or an update. \<open>parseFloat\<close> is the JavaScript built-in, taken
  as a parameter.
\<close>

definition buildPayload :: "(jsvalue \<Rightarrow> jsvalue) \<Rightarrow> collection \<Rightarrow> jsobject \<Rightarrow> jsobject" where
  "buildPayload parseFloat ac formData =
     foldl (\<lambda>acc key.
        if key \<in> set (allowedFields ac)
        then (let v = getProp formData key
              in if strIncludes (getFieldType key) ''file''
                 then setprop acc key (if isArray v then v else Arr [])
                 else if key = ''gmdc_pct'' \<or> key = ''estimated_price''
                 then setprop acc key (parseFloat v)
                 else setprop acc key v)
        else acc) [] (keys formData)"

definition handleCreate :: "app_state \<Rightarrow> (jsvalue \<Rightarrow> jsvalue) \<Rightarrow> app_state \<Rightarrow> app_state" where
  "handleCreate r parseFloat s =
     (let activeCollection = initialCollections (activeCollectionKey r);
          requiredCheck =
            list_all (requiredOk (activeCollectionKey r) (newItemData r))
              (requiredFields activeCollection)
      in if \<not> requiredCheck
         then s\<lparr>apiError := Some (''Missing required fields: '' @
                  join '', '' (filter (reportedMissing (activeCollectionKey r) (newItemData r))
                                 (requiredFields activeCollection)))\<rparr>
         else
           (let finalPayload =
                  AList.delete ''id'' (buildPayload parseFloat activeCollection (newItemData r))
            in handleRequest r ''POST'' (apiPath activeCollection) (Some finalPayload) s))"

definition handleUpdate :: "app_state \<Rightarrow> (jsvalue \<Rightarrow> jsvalue) \<Rightarrow> string \<Rightarrow> jsobject \<Rightarrow> app_state \<Rightarrow> app_state" where
  "handleUpdate r parseFloat ident formData s =
     (let activeCollection = initialCollections (activeCollectionKey r)
      in handleRequest r ''PUT'' (apiPath activeCollection @ ''/'' @ ident)
           (Some (buildPayload parseFloat activeCollection formData)) s)"

text \<open>\<open>confirmed\<close>: the answer to the confirmation dialog.\<close>

definition handleDelete :: "app_state \<Rightarrow> bool \<Rightarrow> string \<Rightarrow> app_state \<Rightarrow> app_state" where
  "handleDelete r confirmed ident s =
     (if confirmed
      then handleRequest r ''DELETE''
             (apiPath (initialCollections (activeCollectionKey r)) @ ''/'' @ ident) None s
      else s)"

section \<open>The attachment field of the detail modal\<close>

datatype error = TypeError

text \<open>
  \<open>handleFileChange\<close>: the paths already on the server are kept, the files just selected
  follow them. \<open>formData\<close> is the form state of the render, \<open>prev\<close> the state the
  update is applied to. Calling \<open>filter\<close> on a field that holds no array throws.
\<close>

definition handleFileChange :: "string \<Rightarrow> jsvalue \<Rightarrow> jsobject \<Rightarrow> jsobject \<Rightarrow> error + jsobject" where
  "handleFileChange field fileOrFiles formData prev =
     (if isArray fileOrFiles
      then (if isArray (getProp formData field)
            then (let existingPaths = filter isUploadPath (elems (getProp formData field));
                      newFiles = filter isFile (elems fileOrFiles)
                  in Inr (setprop prev field (Arr (existingPaths @ newFiles))))
            else Inl TypeError)
      else Inr (setprop prev field (Arr [])))"

text \<open>\<open>xs.filter((_, index) => index !== indexToRemove)\<close>\<close>

definition removeIndex :: "nat \<Rightarrow> 'a list \<Rightarrow> 'a list" where
  "removeIndex indexToRemove xs =
     map snd (filter (\<lambda>(index, x). index \<noteq> indexToRemove) (enumerate 0 xs))"

definition handleRemoveFile :: "string \<Rightarrow> nat \<Rightarrow> bool \<Rightarrow> jsobject \<Rightarrow> jsobject \<Rightarrow> jsobject" where
  "handleRemoveFile field indexToRemove isNewFile formData prev =
     (let fileDataArray = (if isArray (getProp formData field) then elems (getProp formData field) else []);
          existingPaths = filter isUploadPath fileDataArray;
          newFiles = filter isFile fileDataArray
      in if isNewFile
         then setprop prev field (Arr (existingPaths @ removeIndex indexToRemove newFiles))
         else setprop prev field (Arr (removeIndex indexToRemove existingPaths @ newFiles)))"

section \<open>Concrete records and states\<close>

definition lineA :: jsobject where
  "lineA = [(''id'', Num 1), (''name'', Str ''Engine Line X'')]"

definition productB :: jsobject where
  "productB = [(''id'', Num 7), (''product_name'', Str ''Sensor A1'')]"

definition logL :: jsobject where
  "logL = [(''action'', Str ''CREATE''), (''table_name'', Str ''products'')]"

text \<open>A signed-in session after its first load, on the product lines tab, nothing cached.\<close>

definition signedIn :: app_state where
  "signedIn = \<lparr>
     authToken = Some ''tok'',
     userData = Some [(''user_role'', Str ''admin'')],
     isInitialLoad = False,
     items = [],
     allProductLines = [],
     logs = [],
     activeCollectionKey = product_lines,
     newItemData = defaultValues (initialCollections product_lines),
     itemFilterTerm = [],
     activeFilterField = None,
     isLoading = False,
     apiError = None,
     dataCache = initialCache,
     isModalOpen = False,
     modalData = None,
     isFormVisible = False,
     sessionStorage = [''authToken'' \<mapsto> ''tok''],
     trace = [] \<rparr>"

text \<open>The same session with product lines cached at time 0 and shown.\<close>

definition cachedAtZero :: app_state where
  "cachedAtZero =
     signedIn\<lparr> items := [lineA], logs := [logL],
       dataCache := initialCache
         (CollKey product_lines \<mapsto> \<lparr> data = [lineA], timestamp = 0 \<rparr>,
          productLinesList \<mapsto> \<lparr> data = [lineA], timestamp = 0 \<rparr>) \<rparr>"

definition lineC :: jsobject where
  "lineC = [(''id'', Num 2), (''name'', Str ''Brush Line'')]"

definition productD :: jsobject where
  "productD = [(''id'', Num 8), (''product_name'', Str ''Sensor B2'')]"

text \<open>Both collections cached at time 0.\<close>

definition cachedBoth :: app_state where
  "cachedBoth =
     cachedAtZero\<lparr> dataCache := (dataCache cachedAtZero)
       (CollKey products \<mapsto> \<lparr> data = [productB], timestamp = 0 \<rparr>) \<rparr>"

text \<open>A resync after a user action at time 1000, from the render \<open>cachedAtZero\<close>.\<close>

definition resync :: pending_fetch where
  "resync = \<lparr> pf_env = cachedAtZero, pf_isUserAction = True, pf_currentTimestamp = 1000 \<rparr>"

definition resyncState :: app_state where
  "resyncState = fst (fetchData cachedAtZero True 1000 cachedAtZero)"

fun logsDown :: "source \<Rightarrow> response" where
  "logsDown MainSrc = Okay (Parsed [lineA, lineC])"
| "logsDown LogsSrc = NetworkFailure ''Failed to fetch''"
| "logsDown LinesSrc = Okay (Parsed [lineA, lineC])"

fun mainDown :: "source \<Rightarrow> response" where
  "mainDown MainSrc = NotOk 500 (Parsed (Some ''Internal error''))"
| "mainDown LogsSrc = Okay (Parsed [logL])"
| "mainDown LinesSrc = Okay (Parsed [lineA, lineC])"


fun mainUnparsed :: "source \<Rightarrow> response" where
  "mainUnparsed MainSrc = Okay (Malformed ''Unexpected end of JSON input'')"
| "mainUnparsed LogsSrc = Okay (Parsed [logL])"
| "mainUnparsed LinesSrc = Okay (Parsed [lineA, lineC])"

fun authRejected :: "source \<Rightarrow> response" where
  "authRejected src = NotOk 401 (Parsed (Some ''Invalid or expired token''))"

text \<open>
  Two switches of the tab while background refreshes are in flight: from the render
  \<open>cachedBoth\<close>, whose entries are stale by time 400000, to the products tab, and back to
  the product lines tab at time 401000, before either refresh has resolved.
\<close>

definition toProducts :: app_state where
  "toProducts = handleCollectionSwitch products cachedBoth"

definition firstFetch :: pending_fetch where
  "firstFetch = \<lparr> pf_env = toProducts, pf_isUserAction = False, pf_currentTimestamp = 400000 \<rparr>"

definition backToLines :: app_state where
  "backToLines = handleCollectionSwitch product_lines (fst (collectionEffect toProducts 400000 toProducts))"

definition secondFetch :: pending_fetch where
  "secondFetch = \<lparr> pf_env = backToLines, pf_isUserAction = False, pf_currentTimestamp = 401000 \<rparr>"

definition bothPending :: app_state where
  "bothPending = fst (collectionEffect backToLines 401000 backToLines)"

fun productsResponse :: "source \<Rightarrow> response" where
  "productsResponse MainSrc = Okay (Parsed [productB, productD])"
| "productsResponse LogsSrc = Okay (Parsed [logL])"
| "productsResponse LinesSrc = Okay (Parsed [lineA, lineC])"

fun linesResponse :: "source \<Rightarrow> response" where
  "linesResponse MainSrc = Okay (Parsed [lineA, lineC])"
| "linesResponse LogsSrc = Okay (Parsed [logL])"
| "linesResponse LinesSrc = Okay (Parsed [lineA, lineC])"

text \<open>The refresh for the final key resolves first, the one for the key left behind last.\<close>

definition bothArrived :: app_state where
  "bothArrived =
     fetchData_settle firstFetch productsResponse MainLogsLines
       (fetchData_settle secondFetch linesResponse LinesLogsMain bothPending)"

text \<open>
  An update of product 7 from the products tab, sent from the render \<open>productsShown\<close>,
  and its successful response at time 5000.
\<close>

definition productsShown :: app_state where
  "productsShown =
     toProducts\<lparr> items := [productB], isModalOpen := True, modalData := Some productB \<rparr>"

definition editedB :: jsobject where
  "editedB =
     [(''id'', Num 7), (''product_name'', Str ''Sensor A1 rev 2''),
      (''product_pictures'', Arr [])]"

definition updateRequest :: event where
  "updateRequest =
     NetCall \<lparr> req_method = ''PUT'',
       req_url = ''https://product-db-back.azurewebsites.net/api/products/7'',
       req_contentTypeJson = True, req_authorization = ''Bearer tok'',
       req_body = JsonBody [(''product_name'', Str ''Sensor A1 rev 2''),
                            (''product_pictures'', Arr [])] \<rparr>"

definition updateSent :: app_state where
  "updateSent = handleUpdate productsShown (\<lambda>v. v) ''7'' editedB productsShown"

definition updateSettled :: "app_state \<times> pending_fetch option" where
  "updateSettled =
     handleRequest_settle productsShown ''PUT'' AfterUpdate (Okay (Parsed [])) 5000 updateSent"








text \<open>The create form of the products tab, untouched, and filled in.\<close>

definition nothingFilled :: app_state where
  "nothingFilled = toProducts\<lparr> newItemData := defaultValues (initialCollections products) \<rparr>"

definition allFilled :: app_state where
  "allFilled = toProducts\<lparr> newItemData :=
     [(''product_name'', Str ''Sensor C3''), (''product_line'', Str ''Engine Line X''),
      (''description'', Str []), (''capacity'', Str []), (''gmdc_pct'', Num 0),
      (''product_pictures'', Arr [])] \<rparr>"

text \<open>Payloads with and without a file that is still to be uploaded.\<close>

definition mixedPayload :: jsobject where
  "mixedPayload =
     [(''product_name'', Str ''Sensor A1''),
      (''product_pictures'', Arr [Str ''uploads/a.png'', File ''b.png'' 2])]"

definition remotePayload :: jsobject where
  "remotePayload =
     [(''product_name'', Str ''Sensor A1''),
      (''product_pictures'', Arr [Str ''uploads/a.png''])]"

text \<open>The form of the detail modal for a product line with no attachment.\<close>

definition modalForm :: jsobject where
  "modalForm = [(''id'', Num 1), (''name'', Str ''Engine Line X''), (''attachments_raw'', Arr [])]"

section \<open>Auxiliary notions for the proofs\<close>

fun resolvedValue :: "(jsobject list) promise \<Rightarrow> jsobject list" where
  "resolvedValue (Resolved v) = v"
| "resolvedValue (Rejected m) = []"

text \<open>A source whose fetch was needed and ended in the \<open>catch\<close> of \<open>safeFetch\<close>.\<close>

definition recorded :: "pending_fetch \<Rightarrow> (source \<Rightarrow> response) \<Rightarrow> source \<Rightarrow> bool" where
  "recorded p resp src =
     (needed p src \<and> snd (safeFetch (sourceErrorMessage p src) (resp src)) \<noteq> None)"


section \<open>The settling of a fetch whose promises all resolve\<close>

lemma recordError_apiError:
  "\<exists>e'. recordError e (s\<lparr>apiError := a\<rparr>) = s\<lparr>apiError := e'\<rparr>
        \<and> (a \<noteq> None \<or> e \<noteq> None \<longrightarrow> e' \<noteq> None)"
  by (cases e) (auto simp: recordError_def)

lemma set_arrivalList: "set (arrivalList order) = UNIV"
proof -
  have "\<And>src. src \<in> set (arrivalList order)"
  proof -
    fix src show "src \<in> set (arrivalList order)"
      by (cases order; cases src; simp)
  qed
  then show ?thesis by auto
qed

lemma arrive_resolved:
  assumes "\<forall>src \<in> set l. \<exists>v. fetchPromises p resp src = Resolved v"
  shows "\<exists>e. arrive p resp fetched l (s\<lparr>apiError := a\<rparr>) =
           fetchData_finally p (fetchData_try p
             (\<lambda>src. if src \<in> set l \<and> needed p src
                    then resolvedValue (fetchPromises p resp src) else fetched src)
             (s\<lparr>apiError := e\<rparr>))
         \<and> (a \<noteq> None \<or> (\<exists>src \<in> set l. recorded p resp src) \<longrightarrow> e \<noteq> None)"
  using assms
proof (induction l arbitrary: fetched a)
  case Nil
  then show ?case by auto
next
  case (Cons src rest)
  show ?case
  proof (cases "needed p src")
    case False
    have "\<exists>e. arrive p resp fetched rest (s\<lparr>apiError := a\<rparr>) =
           fetchData_finally p (fetchData_try p
             (\<lambda>src. if src \<in> set rest \<and> needed p src
                    then resolvedValue (fetchPromises p resp src) else fetched src)
             (s\<lparr>apiError := e\<rparr>))
          \<and> (a \<noteq> None \<or> (\<exists>src \<in> set rest. recorded p resp src) \<longrightarrow> e \<noteq> None)"
      using Cons by simp
    moreover have "(\<lambda>x. if x \<in> set rest \<and> needed p x
                    then resolvedValue (fetchPromises p resp x) else fetched x)
        = (\<lambda>x. if x \<in> set (src # rest) \<and> needed p x
                    then resolvedValue (fetchPromises p resp x) else fetched x)"
      using False by auto
    moreover have "\<not> recorded p resp src"
      using False by (simp add: recorded_def)
    ultimately show ?thesis using False by simp
  next
    case True
    from Cons.prems obtain v where v: "fetchPromises p resp src = Resolved v" by auto
    with True obtain e where sf: "safeFetch (sourceErrorMessage p src) (resp src) = (Resolved v, e)"
      by (cases "safeFetch (sourceErrorMessage p src) (resp src)") (auto simp: fetchPromises_def)
    obtain a' where a': "recordError e (s\<lparr>apiError := a\<rparr>) = s\<lparr>apiError := a'\<rparr>"
      and a'': "a \<noteq> None \<or> e \<noteq> None \<longrightarrow> a' \<noteq> None"
      using recordError_apiError by blast
    have rec: "recorded p resp src \<longrightarrow> e \<noteq> None"
      using sf by (simp add: recorded_def)
    have "\<exists>e. arrive p resp (fetched(src := v)) rest (s\<lparr>apiError := a'\<rparr>) =
           fetchData_finally p (fetchData_try p
             (\<lambda>x. if x \<in> set rest \<and> needed p x
                    then resolvedValue (fetchPromises p resp x) else (fetched(src := v)) x)
             (s\<lparr>apiError := e\<rparr>))
          \<and> (a' \<noteq> None \<or> (\<exists>src \<in> set rest. recorded p resp src) \<longrightarrow> e \<noteq> None)"
      using Cons by simp
    moreover have "(\<lambda>x. if x \<in> set rest \<and> needed p x
                    then resolvedValue (fetchPromises p resp x) else (fetched(src := v)) x)
        = (\<lambda>x. if x \<in> set (src # rest) \<and> needed p x
                    then resolvedValue (fetchPromises p resp x) else fetched x)"
      using True v by auto
    ultimately show ?thesis using True sf a' a'' rec by auto
  qed
qed

lemma settle_resolved:
  assumes "\<forall>src. \<exists>v. fetchPromises p resp src = Resolved v"
  shows "\<exists>e. fetchData_settle p resp order s =
           fetchData_finally p (fetchData_try p
             (\<lambda>src. resolvedValue (fetchPromises p resp src)) (s\<lparr>apiError := e\<rparr>))
         \<and> ((\<exists>src. recorded p resp src) \<longrightarrow> e \<noteq> None)"
proof -
  have eq: "(\<lambda>src. if src \<in> set (arrivalList order) \<and> needed p src
                    then resolvedValue (fetchPromises p resp src) else resolvedFromClosure p src)
      = (\<lambda>src. resolvedValue (fetchPromises p resp src))"
    by (auto simp: set_arrivalList fetchPromises_def)
  have all: "\<forall>src \<in> set (arrivalList order). \<exists>v. fetchPromises p resp src = Resolved v"
    using assms by simp
  obtain e where e: "arrive p resp (resolvedFromClosure p) (arrivalList order) (s\<lparr>apiError := apiError s\<rparr>) =
           fetchData_finally p (fetchData_try p
             (\<lambda>src. if src \<in> set (arrivalList order) \<and> needed p src
                    then resolvedValue (fetchPromises p resp src) else resolvedFromClosure p src)
             (s\<lparr>apiError := e\<rparr>))"
     and e': "apiError s \<noteq> None \<or> (\<exists>src \<in> set (arrivalList order). recorded p resp src) \<longrightarrow> e \<noteq> None"
    using arrive_resolved [OF all] by blast
  have "fetchData_settle p resp order s =
           fetchData_finally p (fetchData_try p
             (\<lambda>src. resolvedValue (fetchPromises p resp src)) (s\<lparr>apiError := e\<rparr>))"
    using e unfolding eq by (simp add: fetchData_settle_def)
  moreover have "(\<exists>src. recorded p resp src) \<longrightarrow> e \<noteq> None"
    using e' by (simp add: set_arrivalList)
  ultimately show ?thesis by blast
qed

lemma try_finally_fields:
  "items (fetchData_finally p (fetchData_try p f s)) =
     (if f MainSrc \<noteq> [] then f MainSrc else cachedData (pf_env p) (CollKey (cachedKey p)))"
  "allProductLines (fetchData_finally p (fetchData_try p f s)) =
     (if f LinesSrc \<noteq> [] then f LinesSrc else cachedData (pf_env p) productLinesList)"
  "logs (fetchData_finally p (fetchData_try p f s)) = (if needed p LogsSrc then f LogsSrc else logs s)"
  "authToken (fetchData_finally p (fetchData_try p f s)) = authToken s"
  "userData (fetchData_finally p (fetchData_try p f s)) = userData s"
  "activeCollectionKey (fetchData_finally p (fetchData_try p f s)) = activeCollectionKey s"
  "trace (fetchData_finally p (fetchData_try p f s)) = trace s"
  "apiError (fetchData_finally p (fetchData_try p f s)) = apiError s"
  by (simp_all add: fetchData_finally_def fetchData_try_def Let_def del: needed.simps)

lemma try_finally_cache:
  "dataCache (fetchData_finally p (fetchData_try p f s)) (CollKey k) =
     (if needed p MainSrc \<and> f MainSrc \<noteq> [] \<and> k = cachedKey p
      then Some \<lparr> data = f MainSrc, timestamp = pf_currentTimestamp p \<rparr>
      else dataCache s (CollKey k))"
  "dataCache (fetchData_finally p (fetchData_try p f s)) productLinesList =
     (if needed p LinesSrc \<and> f LinesSrc \<noteq> []
      then Some \<lparr> data = f LinesSrc, timestamp = pf_currentTimestamp p \<rparr>
      else dataCache s productLinesList)"
  by (simp_all add: fetchData_finally_def fetchData_try_def Let_def del: needed.simps)


lemma settle_fields:
  assumes "fetchPromises p resp MainSrc = Resolved a"
    and "fetchPromises p resp LogsSrc = Resolved b"
    and "fetchPromises p resp LinesSrc = Resolved c"
  shows "items (fetchData_settle p resp order s) =
           (if a \<noteq> [] then a else cachedData (pf_env p) (CollKey (cachedKey p)))"
    and "allProductLines (fetchData_settle p resp order s) =
           (if c \<noteq> [] then c else cachedData (pf_env p) productLinesList)"
    and "logs (fetchData_settle p resp order s) = (if needed p LogsSrc then b else logs s)"
    and "authToken (fetchData_settle p resp order s) = authToken s"
    and "userData (fetchData_settle p resp order s) = userData s"
    and "activeCollectionKey (fetchData_settle p resp order s) = activeCollectionKey s"
    and "trace (fetchData_settle p resp order s) = trace s"
    and "dataCache (fetchData_settle p resp order s) (CollKey k) =
           (if needed p MainSrc \<and> a \<noteq> [] \<and> k = cachedKey p
            then Some \<lparr> data = a, timestamp = pf_currentTimestamp p \<rparr>
            else dataCache s (CollKey k))"
    and "dataCache (fetchData_settle p resp order s) productLinesList =
           (if needed p LinesSrc \<and> c \<noteq> []
            then Some \<lparr> data = c, timestamp = pf_currentTimestamp p \<rparr>
            else dataCache s productLinesList)"
    and "recorded p resp src \<Longrightarrow> apiError (fetchData_settle p resp order s) \<noteq> None"
proof -
  have all: "\<forall>src. \<exists>v. fetchPromises p resp src = Resolved v"
  proof
    fix src show "\<exists>v. fetchPromises p resp src = Resolved v"
      using assms by (cases src) auto
  qed
  obtain e where e: "fetchData_settle p resp order s =
           fetchData_finally p (fetchData_try p
             (\<lambda>src. resolvedValue (fetchPromises p resp src)) (s\<lparr>apiError := e\<rparr>))"
    and e': "(\<exists>src. recorded p resp src) \<longrightarrow> e \<noteq> None"
    using settle_resolved [OF all] by blast
  show "items (fetchData_settle p resp order s) =
           (if a \<noteq> [] then a else cachedData (pf_env p) (CollKey (cachedKey p)))"
    unfolding e by (simp add: try_finally_fields assms)
  show "allProductLines (fetchData_settle p resp order s) =
           (if c \<noteq> [] then c else cachedData (pf_env p) productLinesList)"
    unfolding e by (simp add: try_finally_fields assms)
  show "logs (fetchData_settle p resp order s) = (if needed p LogsSrc then b else logs s)"
    unfolding e by (simp add: try_finally_fields assms del: needed.simps)
  show "authToken (fetchData_settle p resp order s) = authToken s"
    unfolding e by (simp add: try_finally_fields)
  show "userData (fetchData_settle p resp order s) = userData s"
    unfolding e by (simp add: try_finally_fields)
  show "activeCollectionKey (fetchData_settle p resp order s) = activeCollectionKey s"
    unfolding e by (simp add: try_finally_fields)
  show "trace (fetchData_settle p resp order s) = trace s"
    unfolding e by (simp add: try_finally_fields)
  show "dataCache (fetchData_settle p resp order s) (CollKey k) =
           (if needed p MainSrc \<and> a \<noteq> [] \<and> k = cachedKey p
            then Some \<lparr> data = a, timestamp = pf_currentTimestamp p \<rparr>
            else dataCache s (CollKey k))"
    unfolding e by (simp add: try_finally_cache assms del: needed.simps)
  show "dataCache (fetchData_settle p resp order s) productLinesList =
           (if needed p LinesSrc \<and> c \<noteq> []
            then Some \<lparr> data = c, timestamp = pf_currentTimestamp p \<rparr>
            else dataCache s productLinesList)"
    unfolding e by (simp add: try_finally_cache assms del: needed.simps)
  show "recorded p resp src \<Longrightarrow> apiError (fetchData_settle p resp order s) \<noteq> None"
    unfolding e using e' by (auto simp add: try_finally_fields)
qed

lemma failing_resolves_empty:
  "fst (safeFetch msg (NetworkFailure m)) = Resolved []"
  "snd (safeFetch msg (NetworkFailure m)) = Some m"
  "fst (safeFetch msg (NotOk status bd)) = Resolved []"
  "snd (safeFetch msg (NotOk status bd)) \<noteq> None"
  by (simp_all add: Let_def)


lemma arrive_apiError:
  assumes "\<forall>src \<in> set l. \<exists>v. fetchPromises p resp src = Resolved v"
  shows "apiError (arrive p resp fetched l s) = apiError (recordErrors p resp l s)"
  using assms
proof (induction l arbitrary: fetched s)
  case Nil
  show ?case by (simp add: try_finally_fields)
next
  case (Cons src rest)
  show ?case
  proof (cases "needed p src")
    case False
    then show ?thesis using Cons by simp
  next
    case True
    from Cons.prems obtain v where v: "fetchPromises p resp src = Resolved v" by auto
    with True obtain e where sf: "safeFetch (sourceErrorMessage p src) (resp src) = (Resolved v, e)"
      by (cases "safeFetch (sourceErrorMessage p src) (resp src)") (auto simp: fetchPromises_def)
    show ?thesis using True sf Cons by simp
  qed
qed

lemma settle_apiError:
  assumes "fetchPromises p resp MainSrc = Resolved a"
    and "fetchPromises p resp LogsSrc = Resolved b"
    and "fetchPromises p resp LinesSrc = Resolved c"
  shows "apiError (fetchData_settle p resp order s)
           = apiError (recordErrors p resp (arrivalList order) s)"
proof -
  have "\<forall>src \<in> set (arrivalList order). \<exists>v. fetchPromises p resp src = Resolved v"
  proof
    fix src show "\<exists>v. fetchPromises p resp src = Resolved v"
      using assms by (cases src) auto
  qed
  then show ?thesis
    unfolding fetchData_settle_def by (rule arrive_apiError)
qed

lemma recordErrors_single:
  assumes "needed p src"
    and "snd (safeFetch (sourceErrorMessage p src) (resp src)) = Some m"
    and "\<forall>x. x \<noteq> src \<and> needed p x \<longrightarrow> snd (safeFetch (sourceErrorMessage p x) (resp x)) = None"
  shows "apiError (recordErrors p resp l s) = (if src \<in> set l then Some m else apiError s)"
proof (induction l arbitrary: s)
  case Nil
  show ?case by simp
next
  case (Cons x xs)
  show ?case
  proof (cases "x = src")
    case True
    then show ?thesis using assms(1,2) by (simp add: Cons.IH recordError_def)
  next
    case False
    then show ?thesis using assms(3) by (cases "needed p x") (auto simp: Cons.IH recordError_def)
  qed
qed

section \<open>Freshness of a cache entry\<close>

text \<open>
  C4, as the code has it. For the entry of the active collection and for the entry of the
  product lines list alike: with no user action, the entry is served without a network
  read exactly when \<open>now - timestamp \<le> 300000\<close>. The comparison of the code is
  \<open>(now - timestamp) > cacheTTL\<close>, so an entry whose age is exactly the time-to-live is
  still served from the cache.
\<close>

theorem C4_fresh_iff_age_at_most_ttl:
  assumes "dataCache r (CollKey (activeCollectionKey r)) = Some e"
    and "dataCache r productLinesList = Some e'"
  shows "(\<not> shouldFetchMainData r False now) = (now - timestamp e \<le> 300000)
       \<and> (\<not> shouldFetchProductLines r False now) = (now - timestamp e' \<le> 300000)"
  using assms
  by (simp add: shouldFetchMainData_def shouldFetchProductLines_def cacheTTL_def not_less)

theorem C4_fresh_iff_age_at_most_ttl_witness:
  "\<not> shouldFetchMainData cachedAtZero False 299999
   \<and> \<not> shouldFetchProductLines cachedAtZero False 300000
   \<and> shouldFetchMainData cachedAtZero False 300001"
proof -
  have main: "dataCache cachedAtZero (CollKey (activeCollectionKey cachedAtZero))
                = Some \<lparr> data = [lineA], timestamp = 0 \<rparr>"
    by (simp add: cachedAtZero_def signedIn_def)
  have lines: "dataCache cachedAtZero productLinesList = Some \<lparr> data = [lineA], timestamp = 0 \<rparr>"
    by (simp add: cachedAtZero_def)
  show ?thesis
    using C4_fresh_iff_age_at_most_ttl [OF main lines, of 299999]
      C4_fresh_iff_age_at_most_ttl [OF main lines, of 300000]
      C4_fresh_iff_age_at_most_ttl [OF main lines, of 300001]
    by simp
qed

text \<open>
  C4 as stated fails at the boundary: an entry written at time 0 is, at time 300000, of
  age 300000, which is not below 300000, and it is served from the cache with no request
  sent.
\<close>

theorem C4_counterexample:
  "dataCache cachedAtZero (CollKey product_lines) = Some \<lparr> data = [lineA], timestamp = 0 \<rparr>
   \<and> \<not> ((300000::int) - 0 < 300000)
   \<and> \<not> shouldFetchMainData cachedAtZero False 300000
   \<and> trace (fst (fetchData cachedAtZero False 300000 cachedAtZero)) = []"
  by (simp add: fetchData_def shouldFetchMainData_def shouldFetchProductLines_def
      shouldFetchLogs_def cachedAtZero_def signedIn_def cacheTTL_def noToken_def)

section \<open>Evaluating the concrete states\<close>

lemmas scenario_defs = toProducts_def firstFetch_def backToLines_def secondFetch_def bothPending_def
  bothArrived_def cachedBoth_def cachedAtZero_def signedIn_def initialCache_def emptyEntry_def
  handleCollectionSwitch_def collectionEffect_def fetchData_def fetchData_settle_def
  fetchData_try_def fetchData_finally_def fetchData_catch_def recordError_def cachedData_def cachedKey_def
  shouldFetchMainData_def shouldFetchProductLines_def shouldFetchLogs_def cacheTTL_def noToken_def
  resync_def resyncState_def




section \<open>Stale responses\<close>

text \<open>
  C1, as the code has it. \<open>fetchData\<close> captures the active collection key when it is
  called (\<open>cachedKey\<close>) and never compares it with the active key when its promises
  resolve. Whatever the active key of the live state \<open>s\<close> is by then, the result is
  applied: the items of the view become the fetched records, or the data cached in the
  closure when the fetch gave none, and non-empty fetched records are written to the
  cache entry of the captured key with the captured timestamp; the active key is left as
  it is. As this holds for every live state, of two pending fetches the one that resolves
  last decides the items.
\<close>

theorem C1_applied_whatever_the_active_key:
  assumes "fetchPromises p resp MainSrc = Resolved a"
    and "fetchPromises p resp LogsSrc = Resolved b"
    and "fetchPromises p resp LinesSrc = Resolved c"
  shows "items (fetchData_settle p resp order s) =
           (if a \<noteq> [] then a else cachedData (pf_env p) (CollKey (cachedKey p)))
       \<and> dataCache (fetchData_settle p resp order s) (CollKey (cachedKey p)) =
           (if needed p MainSrc \<and> a \<noteq> []
            then Some \<lparr> data = a, timestamp = pf_currentTimestamp p \<rparr>
            else dataCache s (CollKey (cachedKey p)))
       \<and> activeCollectionKey (fetchData_settle p resp order s) = activeCollectionKey s
       \<and> cachedKey p = activeCollectionKey (pf_env p)"
  using settle_fields(1,6,8) [OF assms] by (simp add: cachedKey_def del: needed.simps)

theorem C1_applied_whatever_the_active_key_witness:
  "activeCollectionKey (fetchData_settle secondFetch linesResponse LinesLogsMain bothPending)
     = product_lines
   \<and> cachedKey firstFetch = products
   \<and> items bothArrived = [productB, productD]
   \<and> dataCache bothArrived (CollKey products)
        = Some \<lparr> data = [productB, productD], timestamp = 400000 \<rparr>
   \<and> activeCollectionKey bothArrived = product_lines"
proof -
  have m: "fetchPromises firstFetch productsResponse MainSrc = Resolved [productB, productD]"
    by (simp add: fetchPromises_def scenario_defs)
  have l: "fetchPromises firstFetch productsResponse LogsSrc = Resolved [logL]"
    by (simp add: fetchPromises_def scenario_defs)
  have c: "fetchPromises firstFetch productsResponse LinesSrc = Resolved [lineA, lineC]"
    by (simp add: fetchPromises_def scenario_defs)
  have k: "activeCollectionKey (fetchData_settle secondFetch linesResponse LinesLogsMain bothPending)
     = product_lines"
    by (simp add: scenario_defs Let_def)
  have n: "needed firstFetch MainSrc"
    by (simp add: scenario_defs)
  show ?thesis
    using C1_applied_whatever_the_active_key [OF m l c, of MainLogsLines
        "fetchData_settle secondFetch linesResponse LinesLogsMain bothPending"] k n
    by (simp add: bothArrived_def cachedKey_def firstFetch_def toProducts_def handleCollectionSwitch_def)
qed

text \<open>
  C1 as stated fails. Both cached collections are stale at time 400000. The user goes to
  the products tab (\<open>firstFetch\<close> is issued for \<open>products\<close>) and back to the product
  lines tab (\<open>secondFetch\<close>) before either resolves. The response for product lines
  arrives, then the one for products: the products are not discarded, they become the
  items of the view, under the active key \<open>product_lines\<close>, and are written to the
  cache.
\<close>

theorem C1_counterexample:
  "snd (collectionEffect toProducts 400000 toProducts) = Some firstFetch
   \<and> snd (collectionEffect backToLines 401000 backToLines) = Some secondFetch
   \<and> cachedKey firstFetch = products
   \<and> activeCollectionKey bothPending = product_lines
   \<and> activeCollectionKey bothArrived = product_lines
   \<and> items bothArrived = [productB, productD]
   \<and> dataCache bothArrived (CollKey products)
        = Some \<lparr> data = [productB, productD], timestamp = 400000 \<rparr>"
  by (simp add: scenario_defs Let_def)

section \<open>Failures of single sources\<close>

text \<open>
  C5, as the code has it. Take a resync in which every needed fetch ends in a network
  failure, in a response that is not 2xx, or in a 2xx response whose body is an array of
  records: its three promises resolve. A network failure makes \<open>safeFetch\<close> resolve to
  the empty array and hand the message of the failure to \<open>setApiError\<close>; a response that
  is not 2xx does the same with the message of its body, or with the parser's message when
  the body does not parse, or with the default message of the source. The items show the
  fetched main data when there are some and otherwise the data cached in the render that
  issued the resync; the product lines list likewise; the session token is kept. The
  error shown at the end is what the \<open>safeFetch\<close> calls of the needed sources recorded,
  in the order of arrival: the message of the source that failed, when one failed alone.
  The audit log has no cache: when its fetch was needed, the log view becomes what the
  fetch resolved to, which is empty after a failure.
\<close>

theorem C5_failed_fetch_degrades_alone:
  assumes "fetchPromises p resp MainSrc = Resolved a"
    and "fetchPromises p resp LogsSrc = Resolved b"
    and "fetchPromises p resp LinesSrc = Resolved c"
  shows "safeFetch msg (NetworkFailure m) = (Resolved [], Some m)
       \<and> safeFetch msg (NotOk status bd) =
           (Resolved [],
            Some (if status \<noteq> 204
                  then (case bd of Malformed pm \<Rightarrow> pm | Parsed errorData \<Rightarrow> messageOr errorData msg)
                  else msg))
       \<and> items (fetchData_settle p resp order s) =
           (if a \<noteq> [] then a else cachedData (pf_env p) (CollKey (cachedKey p)))
       \<and> allProductLines (fetchData_settle p resp order s) =
           (if c \<noteq> [] then c else cachedData (pf_env p) productLinesList)
       \<and> logs (fetchData_settle p resp order s) = (if needed p LogsSrc then b else logs s)
       \<and> authToken (fetchData_settle p resp order s) = authToken s
       \<and> apiError (fetchData_settle p resp order s)
           = apiError (recordErrors p resp (arrivalList order) s)
       \<and> (needed p src \<and> snd (safeFetch (sourceErrorMessage p src) (resp src)) = Some m'
            \<and> (\<forall>x. x \<noteq> src \<and> needed p x
                   \<longrightarrow> snd (safeFetch (sourceErrorMessage p x) (resp x)) = None)
            \<longrightarrow> apiError (fetchData_settle p resp order s) = Some m')
       \<and> (needed p src \<and> snd (safeFetch (sourceErrorMessage p src) (resp src)) \<noteq> None
            \<longrightarrow> apiError (fetchData_settle p resp order s) \<noteq> None)"
proof -
  note f = settle_fields [OF assms, where order = order and s = s]
  have err: "apiError (fetchData_settle p resp order s)
           = apiError (recordErrors p resp (arrivalList order) s)"
    using assms by (rule settle_apiError)
  have single: "needed p src \<and> snd (safeFetch (sourceErrorMessage p src) (resp src)) = Some m'
            \<and> (\<forall>x. x \<noteq> src \<and> needed p x
                   \<longrightarrow> snd (safeFetch (sourceErrorMessage p x) (resp x)) = None)
            \<longrightarrow> apiError (fetchData_settle p resp order s) = Some m'"
    unfolding err by (auto simp: recordErrors_single set_arrivalList)
  have some: "needed p src \<and> snd (safeFetch (sourceErrorMessage p src) (resp src)) \<noteq> None
            \<longrightarrow> apiError (fetchData_settle p resp order s) \<noteq> None"
    using f(10) [of src] by (simp add: recorded_def)
  have sf: "safeFetch msg (NetworkFailure m) = (Resolved [], Some m)
       \<and> safeFetch msg (NotOk status bd) =
           (Resolved [],
            Some (if status \<noteq> 204
                  then (case bd of Malformed pm \<Rightarrow> pm | Parsed errorData \<Rightarrow> messageOr errorData msg)
                  else msg))"
    by (simp add: Let_def)
  from sf f(1) f(2) f(3) f(4) err single some show ?thesis by blast
qed

theorem C5_failed_fetch_degrades_alone_witness:
  "fetchPromises resync mainDown MainSrc = Resolved []
   \<and> items (fetchData_settle resync mainDown LinesLogsMain resyncState) = [lineA]
   \<and> allProductLines (fetchData_settle resync mainDown LinesLogsMain resyncState) = [lineA, lineC]
   \<and> logs (fetchData_settle resync mainDown LinesLogsMain resyncState) = [logL]
   \<and> authToken (fetchData_settle resync mainDown LinesLogsMain resyncState) = Some ''tok''
   \<and> apiError (fetchData_settle resync mainDown LinesLogsMain resyncState) = Some ''Internal error''"
proof -
  have m: "fetchPromises resync mainDown MainSrc = Resolved []"
    by (simp add: fetchPromises_def scenario_defs)
  have l: "fetchPromises resync mainDown LogsSrc = Resolved [logL]"
    by (simp add: fetchPromises_def scenario_defs)
  have c: "fetchPromises resync mainDown LinesSrc = Resolved [lineA, lineC]"
    by (simp add: fetchPromises_def scenario_defs)
  have n: "needed resync MainSrc" "needed resync LogsSrc"
    by (simp_all add: scenario_defs)
  have e: "snd (safeFetch (sourceErrorMessage resync MainSrc) (mainDown MainSrc)) = Some ''Internal error''"
    by (simp add: messageOr_def)
  have o: "\<forall>x. x \<noteq> MainSrc \<and> needed resync x
             \<longrightarrow> snd (safeFetch (sourceErrorMessage resync x) (mainDown x)) = None"
  proof (intro allI impI)
    fix x assume "x \<noteq> MainSrc \<and> needed resync x"
    then show "snd (safeFetch (sourceErrorMessage resync x) (mainDown x)) = None"
      by (cases x) simp_all
  qed
  have t: "authToken resyncState = Some ''tok''"
    by (simp add: scenario_defs Let_def)
  have cd: "cachedData (pf_env resync) (CollKey (cachedKey resync)) = [lineA]"
    by (simp add: scenario_defs)
  note th = C5_failed_fetch_degrades_alone [OF m l c,
      where order = LinesLogsMain and s = resyncState and src = MainSrc
        and m' = "''Internal error''"]
  have i: "items (fetchData_settle resync mainDown LinesLogsMain resyncState) = [lineA]"
    using th cd by simp
  have a: "allProductLines (fetchData_settle resync mainDown LinesLogsMain resyncState) = [lineA, lineC]"
    using th by simp
  have g: "logs (fetchData_settle resync mainDown LinesLogsMain resyncState) = [logL]"
    using th n by simp
  have k: "authToken (fetchData_settle resync mainDown LinesLogsMain resyncState) = Some ''tok''"
    using th t by simp
  have x: "apiError (fetchData_settle resync mainDown LinesLogsMain resyncState) = Some ''Internal error''"
    using th n e o by blast
  from m i a g k x show ?thesis by blast
qed

text \<open>
  C5 as stated fails for the audit log: after a user action, a network failure of the
  logs request alone empties the log view, which showed an entry before.
\<close>

theorem C5_counterexample:
  "needed resync LogsSrc
   \<and> logsDown LogsSrc = NetworkFailure ''Failed to fetch''
   \<and> logs resyncState = [logL]
   \<and> logs (fetchData_settle resync logsDown MainLogsLines resyncState) = []"
  by (simp add: scenario_defs Let_def)

text \<open>
  A 2xx response whose body does not parse is not covered by the theorem above: the
  promise of \<open>safeFetch\<close> rejects, \<open>Promise.all\<close> rejects with it, and the product
  lines that were fetched successfully are neither shown nor cached.
\<close>

lemma unparsed_ok_body_discards_siblings:
  "fetchPromises resync mainUnparsed MainSrc = Rejected ''Unexpected end of JSON input''
   \<and> fetchPromises resync mainUnparsed LinesSrc = Resolved [lineA, lineC]
   \<and> allProductLines resyncState = []
   \<and> allProductLines (fetchData_settle resync mainUnparsed LinesLogsMain resyncState) = []
   \<and> dataCache (fetchData_settle resync mainUnparsed LinesLogsMain resyncState) productLinesList
        = Some \<lparr> data = [lineA], timestamp = 0 \<rparr>
   \<and> apiError (fetchData_settle resync mainUnparsed LinesLogsMain resyncState)
        = Some ''Unexpected end of JSON input''"
  by (simp add: fetchPromises_def scenario_defs Let_def)

section \<open>An authentication rejection\<close>

text \<open>
  C2, evaluated. After a user action all three requests are answered 401 with the message
  \<open>Invalid or expired token\<close>. \<open>safeFetch\<close> catches each error, so the \<open>catch\<close> of
  \<open>fetchData\<close> that would log out is never reached: the token stays, no logout request
  is sent, the cache is kept, the merge runs on empty results and the message shown is
  the server's, not the session-expired one.
\<close>

theorem C2_auth_rejection_is_swallowed:
  "snd (fetchData cachedAtZero True 1000 cachedAtZero) = Some resync
   \<and> authRejected MainSrc = NotOk 401 (Parsed (Some ''Invalid or expired token''))
   \<and> authToken (fetchData_settle resync authRejected MainLogsLines resyncState) = Some ''tok''
   \<and> apiError (fetchData_settle resync authRejected MainLogsLines resyncState)
        = Some ''Invalid or expired token''
   \<and> items (fetchData_settle resync authRejected MainLogsLines resyncState) = [lineA]
   \<and> trace (fetchData_settle resync authRejected MainLogsLines resyncState) = trace resyncState
   \<and> dataCache (fetchData_settle resync authRejected MainLogsLines resyncState) (CollKey product_lines)
        = Some \<lparr> data = [lineA], timestamp = 0 \<rparr>"
  by (simp add: scenario_defs Let_def messageOr_def)

section \<open>An empty array from the server\<close>



















section \<open>After a successful mutation\<close>

text \<open>
  C3, as the code has it. After a successful response to a create, update or delete sent
  from a signed-in render \<open>r\<close>: the cache entry of the collection that was active in
  \<open>r\<close> and the entry of the product lines list are both reset to no data and timestamp 0;
  after that the caller's success callback runs; and only then is the resync issued, as
  \<open>fetchData(true)\<close> of the same closure, with its three requests.
\<close>

theorem C3_invalidate_then_callback_then_resync:
  assumes "\<not> noToken (authToken r)" and "userData r \<noteq> None"
  shows "dataCache (fst (handleRequest_settle r method cb (Okay b) now s))
             (CollKey (activeCollectionKey r)) = Some emptyEntry
       \<and> dataCache (fst (handleRequest_settle r method cb (Okay b) now s)) productLinesList
           = Some emptyEntry
       \<and> emptyEntry = \<lparr> data = [], timestamp = 0 \<rparr>
       \<and> snd (handleRequest_settle r method cb (Okay b) now s)
           = Some \<lparr> pf_env = r, pf_isUserAction = True, pf_currentTimestamp = now \<rparr>
       \<and> trace (fst (handleRequest_settle r method cb (Okay b) now s))
           = trace s @ successAlert r method @ [SuccessCallback] @
               [getRequest (authToken r) (apiPath (initialCollections (activeCollectionKey r))),
                getRequest (authToken r) LOGS_API_PATH,
                getRequest (authToken r) (apiPath (initialCollections product_lines))]"
  using assms
  by (cases cb)
     (simp_all add: handleRequest_settle_def fetchData_def Let_def emptyEntry_def
        shouldFetchMainData_def shouldFetchProductLines_def shouldFetchLogs_def cachedKey_def)

theorem C3_invalidate_then_callback_then_resync_witness:
  "dataCache (fst updateSettled) (CollKey products) = Some \<lparr> data = [], timestamp = 0 \<rparr>
   \<and> dataCache (fst updateSettled) productLinesList = Some \<lparr> data = [], timestamp = 0 \<rparr>
   \<and> snd updateSettled
        = Some \<lparr> pf_env = productsShown, pf_isUserAction = True, pf_currentTimestamp = 5000 \<rparr>"
proof -
  have token: "\<not> noToken (authToken productsShown)" by code_simp
  have user: "userData productsShown \<noteq> None" by code_simp
  have key: "activeCollectionKey productsShown = products" by code_simp
  show ?thesis
    using C3_invalidate_then_callback_then_resync [OF token user,
        of "''PUT''" AfterUpdate "Parsed []" 5000 updateSent] key
    by (simp add: updateSettled_def emptyEntry_def)
qed

text \<open>
  C3 as stated fails in its order: in the trace of the update of product 7, the success
  callback stands before the three requests of the resync, not after them.
\<close>

theorem C3_counterexample:
  "trace updateSent = [updateRequest]
   \<and> trace (fst updateSettled) =
      [updateRequest,
       SwalFire ''Updated!'' ''Product successfully updated.'' ''success'',
       SuccessCallback,
       getRequest (Some ''tok'') ''/api/products'',
       getRequest (Some ''tok'') ''/api/audit_logs'',
       getRequest (Some ''tok'') ''/api/product_lines'']"
  by code_simp

section \<open>Mutations in flight\<close>

text \<open>
  C8, as the code has it. \<open>handleRequest\<close> keeps no record of a mutation in flight; its
  only guard is the token of the closure. With a token, it sends its request whatever the
  live state is, so a second request issued while a first one is pending is sent as well.
\<close>

theorem C8_no_guard_but_the_token:
  assumes "\<not> noToken (authToken r)"
  shows "trace (handleRequest r method path body s) = trace s @
           [NetCall \<lparr> req_method = method, req_url = BASE_API_URL @ path,
              req_contentTypeJson = (\<not> hasFile body), req_authorization = bearer (authToken r),
              req_body = requestBody body \<rparr>]
       \<and> trace (handleRequest r method' path' body' (handleRequest r method path body s)) =
           trace s @
           [NetCall \<lparr> req_method = method, req_url = BASE_API_URL @ path,
              req_contentTypeJson = (\<not> hasFile body), req_authorization = bearer (authToken r),
              req_body = requestBody body \<rparr>,
            NetCall \<lparr> req_method = method', req_url = BASE_API_URL @ path',
              req_contentTypeJson = (\<not> hasFile body'), req_authorization = bearer (authToken r),
              req_body = requestBody body' \<rparr>]"
  using assms by (simp add: handleRequest_def Let_def)

theorem C8_no_guard_but_the_token_witness:
  "trace (handleRequest productsShown ''DELETE'' ''/api/products/7'' None updateSent) =
     trace updateSent @
       [NetCall \<lparr> req_method = ''DELETE'', req_url = BASE_API_URL @ ''/api/products/7'',
          req_contentTypeJson = True, req_authorization = ''Bearer tok'',
          req_body = NoBody \<rparr>]"
proof -
  have token: "\<not> noToken (authToken productsShown)" by code_simp
  have auth: "bearer (authToken productsShown) = ''Bearer tok''" by code_simp
  have none: "hasFile None = False" "requestBody None = NoBody"
    by (simp_all add: hasFile_def requestBody_def)
  show ?thesis
    using C8_no_guard_but_the_token [OF token, of "''DELETE''" "''/api/products/7''" None updateSent]
    by (simp add: auth none)
qed

text \<open>
  C8 as stated fails: while the update of product 7 is pending, the same update issued
  again for the same collection is not rejected, and a second request goes out.
\<close>

theorem C8_counterexample:
  "activeCollectionKey productsShown = products
   \<and> trace updateSent = [updateRequest]
   \<and> trace (handleUpdate productsShown (\<lambda>v. v) ''7'' editedB updateSent)
        = [updateRequest, updateRequest]"
  by code_simp

section \<open>The wire format of a payload\<close>

lemma fileFields_types:
  "strIncludes (getFieldType ''attachments_raw'') ''file''"
  "strIncludes (getFieldType ''product_pictures'') ''file''"
  by code_simp+

lemma buildPayload_lookup:
  "map_of (foldl (\<lambda>acc key.
        if key \<in> set (allowedFields ac)
        then (let v = getProp formData key
              in if strIncludes (getFieldType key) ''file''
                 then setprop acc key (if isArray v then v else Arr [])
                 else if key = ''gmdc_pct'' \<or> key = ''estimated_price''
                 then setprop acc key (parseFloat v)
                 else setprop acc key v)
        else acc) acc ks) k =
   (if k \<in> set ks \<and> k \<in> set (allowedFields ac)
    then Some (let v = getProp formData k
               in if strIncludes (getFieldType k) ''file'' then (if isArray v then v else Arr [])
                  else if k = ''gmdc_pct'' \<or> k = ''estimated_price'' then parseFloat v
                  else v)
    else map_of acc k)"
proof (induction ks arbitrary: acc)
  case Nil
  show ?case by simp
next
  case (Cons x xs)
  show ?case
    by (simp add: Cons.IH setprop_def update_conv' Let_def)
qed

lemma buildPayload_file_fields:
  assumes "k \<in> set fileFields"
  shows "getProp (buildPayload parseFloat ac formData) k = Undefined
       \<or> isArray (getProp (buildPayload parseFloat ac formData) k)"
proof -
  have "strIncludes (getFieldType k) ''file''"
    using assms fileFields_types by (auto simp: fileFields_def)
  then show ?thesis
    by (simp add: buildPayload_def getProp_def [of "foldl _ _ _"] buildPayload_lookup Let_def)
qed

lemma getProp_delete_id:
  "k \<noteq> ''id'' \<Longrightarrow> getProp (AList.delete ''id'' b) k = getProp b k"
  by (simp add: getProp_def delete_conv')

lemma jsonBodyOf_lookup:
  "map_of (foldl (\<lambda>acc key.
        if key \<noteq> ''id''
        then (if key \<in> set fileFields \<and> isArray (getProp b key)
              then setprop acc key (Arr (filter isUploadPath (elems (getProp b key))))
              else setprop acc key (getProp b key))
        else acc) acc ks) k =
   (if k \<in> set ks \<and> k \<noteq> ''id''
    then Some (if k \<in> set fileFields \<and> isArray (getProp b k)
               then Arr (filter isUploadPath (elems (getProp b k)))
               else getProp b k)
    else map_of acc k)"
proof (induction ks arbitrary: acc)
  case Nil
  show ?case by simp
next
  case (Cons x xs)
  show ?case
    by (simp add: Cons.IH setprop_def update_conv')
qed

lemma getProp_jsonBodyOf:
  assumes "k \<in> set (keys b)" and "k \<in> set fileFields" and "isArray (getProp b k)"
  shows "getProp (jsonBodyOf b) k = Arr (filter isUploadPath (elems (getProp b k)))"
proof -
  have "k \<noteq> ''id''" using assms(2) by (auto simp: fileFields_def)
  then show ?thesis
    using assms by (simp add: jsonBodyOf_def getProp_def [of "foldl _ _ _"] jsonBodyOf_lookup)
qed

lemma isUploadPath_cases: "isUploadPath e \<Longrightarrow> \<exists>path. e = Str path \<and> startsWith path ''uploads/''"
  by (cases e) simp_all

lemma hasFile_iff:
  "hasFile (Some b) = (\<exists>field \<in> set fileFields. \<exists>f \<in> set (elems (getProp b field)). isFile f)"
proof -
  have "\<And>v. (isArray v \<and> list_ex isFile (elems v)) = (\<exists>f \<in> set (elems v). isFile f)"
  proof -
    fix v show "(isArray v \<and> list_ex isFile (elems v)) = (\<exists>f \<in> set (elems v). isFile f)"
      by (cases v) (simp_all add: list_ex_iff)
  qed
  then show ?thesis by (simp add: hasFile_def list_ex_iff)
qed

lemma fileEntry_Binary:
  "(Binary k n bl \<in> set (fileEntry key e)) = (k = key \<and> e = File n bl)"
  by (cases e) auto

lemma fileEntry_retained:
  "isUploadPath e \<Longrightarrow> fileEntry key e = [Text (key @ ''_retained'') e]"
  by (cases e) auto

lemma formEntries_Binary:
  "(Binary k n bl \<in> set (formEntries b key)) =
     (k = key \<and> key \<in> set fileFields \<and> File n bl \<in> set (elems (getProp b key)))"
proof (cases "isArray (getProp b key)")
  case True
  then show ?thesis by (auto simp: formEntries_def fileEntry_Binary)
next
  case False
  then have "elems (getProp b key) = []" by (cases "getProp b key") simp_all
  with False show ?thesis by (auto simp: formEntries_def)
qed

lemma formDataOf_Binary:
  "(Binary k n bl \<in> set (formDataOf b)) =
     (k \<in> set (keys b) \<and> k \<in> set fileFields \<and> File n bl \<in> set (elems (getProp b k)))"
  by (auto simp: formDataOf_def formEntries_Binary)

lemma formDataOf_retained:
  assumes "k \<in> set (keys b)" and "k \<in> set fileFields"
    and "e \<in> set (elems (getProp b k))" and "isUploadPath e"
  shows "Text (k @ ''_retained'') e \<in> set (formDataOf b)"
proof -
  have arr: "isArray (getProp b k)" using assms(3) by (cases "getProp b k") simp_all
  have "Text (k @ ''_retained'') e \<in> set (formEntries b k)"
    using assms arr by (auto simp: formEntries_def fileEntry_retained intro!: bexI [of _ e])
  then show ?thesis using assms(1) by (auto simp: formDataOf_def)
qed

lemma handleRequest_trace:
  assumes "\<not> noToken (authToken r)"
  shows "trace (handleRequest r method path body s) = trace s @
           [NetCall \<lparr> req_method = method, req_url = BASE_API_URL @ path,
              req_contentTypeJson = (\<not> hasFile body), req_authorization = bearer (authToken r),
              req_body = requestBody body \<rparr>]"
  using assms by (simp add: handleRequest_def Let_def)

text \<open>
  C6. Take a mutation sent from a render that holds a token. Its payload has a file to
  upload exactly when one of the two attachment fields holds an array with a \<open>File\<close> in
  it. Then \<open>handleRequest\<close> sends one request with no JSON content type whose body is
  form data: its binary parts are exactly the \<open>File\<close> entries of the attachment fields,
  under the field's name, and every path under \<open>uploads/\<close> of an attachment field is
  sent under the field's name followed by \<open>_retained\<close>. Otherwise it sends one request
  with the JSON content type whose body is JSON, in which an attachment field that holds
  an array carries the paths under \<open>uploads/\<close> of that array and nothing else. In the
  payloads \<open>handleCreate\<close> and \<open>handleUpdate\<close> pass to \<open>handleRequest\<close>, an
  attachment field that is present always holds an array.
\<close>

theorem C6_request_format_by_local_entries:
  assumes token: "\<not> noToken (authToken r)"
  shows "hasFile (Some b) = (\<exists>field \<in> set fileFields. \<exists>f \<in> set (elems (getProp b field)). isFile f)
   \<and> (hasFile (Some b) \<longrightarrow>
        trace (handleRequest r method path (Some b) s) = trace s @
          [NetCall \<lparr> req_method = method, req_url = BASE_API_URL @ path,
             req_contentTypeJson = False, req_authorization = bearer (authToken r),
             req_body = FormBody (formDataOf b) \<rparr>]
        \<and> requestBody (Some b) = FormBody (formDataOf b)
        \<and> (\<forall>k n bl. Binary k n bl \<in> set (formDataOf b) \<longleftrightarrow>
              k \<in> set (keys b) \<and> k \<in> set fileFields \<and> File n bl \<in> set (elems (getProp b k)))
        \<and> (\<forall>k \<in> set (keys b) \<inter> set fileFields. \<forall>path.
              Str path \<in> set (elems (getProp b k)) \<and> startsWith path ''uploads/''
              \<longrightarrow> Text (k @ ''_retained'') (Str path) \<in> set (formDataOf b)))
   \<and> (\<not> hasFile (Some b) \<longrightarrow>
        trace (handleRequest r method path (Some b) s) = trace s @
          [NetCall \<lparr> req_method = method, req_url = BASE_API_URL @ path,
             req_contentTypeJson = True, req_authorization = bearer (authToken r),
             req_body = JsonBody (jsonBodyOf b) \<rparr>]
        \<and> requestBody (Some b) = JsonBody (jsonBodyOf b)
        \<and> (\<forall>k \<in> set (keys b) \<inter> set fileFields. isArray (getProp b k) \<longrightarrow>
              getProp (jsonBodyOf b) k = Arr (filter isUploadPath (elems (getProp b k)))
              \<and> (\<forall>e \<in> set (elems (getProp (jsonBodyOf b) k)).
                    \<exists>path. e = Str path \<and> startsWith path ''uploads/'')))
   \<and> (\<forall>k \<in> set fileFields.
         getProp (buildPayload parseFloat ac formData) k = Undefined
         \<or> isArray (getProp (buildPayload parseFloat ac formData) k))
   \<and> (\<forall>k \<in> set fileFields.
         getProp (AList.delete ''id'' (buildPayload parseFloat ac formData)) k = Undefined
         \<or> isArray (getProp (AList.delete ''id'' (buildPayload parseFloat ac formData)) k))
   \<and> trace (handleUpdate r parseFloat ident formData s)
        = trace (handleRequest r ''PUT''
                   (apiPath (initialCollections (activeCollectionKey r)) @ ''/'' @ ident)
                   (Some (buildPayload parseFloat (initialCollections (activeCollectionKey r))
                      formData)) s)
   \<and> (list_all (requiredOk (activeCollectionKey r) (newItemData r))
          (requiredFields (initialCollections (activeCollectionKey r))) \<longrightarrow>
        trace (handleCreate r parseFloat s)
          = trace (handleRequest r ''POST'' (apiPath (initialCollections (activeCollectionKey r)))
                     (Some (AList.delete ''id''
                        (buildPayload parseFloat (initialCollections (activeCollectionKey r))
                           (newItemData r)))) s))"
proof -
  have hf: "hasFile (Some b) = (\<exists>field \<in> set fileFields. \<exists>f \<in> set (elems (getProp b field)). isFile f)"
    by (rule hasFile_iff)
  have form: "hasFile (Some b) \<longrightarrow>
        trace (handleRequest r method path (Some b) s) = trace s @
          [NetCall \<lparr> req_method = method, req_url = BASE_API_URL @ path,
             req_contentTypeJson = False, req_authorization = bearer (authToken r),
             req_body = FormBody (formDataOf b) \<rparr>]
        \<and> requestBody (Some b) = FormBody (formDataOf b)"
    using token by (simp add: handleRequest_trace requestBody_def)
  have bin: "\<forall>k n bl. Binary k n bl \<in> set (formDataOf b) \<longleftrightarrow>
              k \<in> set (keys b) \<and> k \<in> set fileFields \<and> File n bl \<in> set (elems (getProp b k))"
    by (simp add: formDataOf_Binary)
  have ret: "\<forall>k \<in> set (keys b) \<inter> set fileFields. \<forall>path.
              Str path \<in> set (elems (getProp b k)) \<and> startsWith path ''uploads/''
              \<longrightarrow> Text (k @ ''_retained'') (Str path) \<in> set (formDataOf b)"
    by (auto intro!: formDataOf_retained)
  have json: "\<not> hasFile (Some b) \<longrightarrow>
        trace (handleRequest r method path (Some b) s) = trace s @
          [NetCall \<lparr> req_method = method, req_url = BASE_API_URL @ path,
             req_contentTypeJson = True, req_authorization = bearer (authToken r),
             req_body = JsonBody (jsonBodyOf b) \<rparr>]
        \<and> requestBody (Some b) = JsonBody (jsonBodyOf b)"
    using token by (simp add: handleRequest_trace requestBody_def)
  have paths: "\<forall>k \<in> set (keys b) \<inter> set fileFields. isArray (getProp b k) \<longrightarrow>
              getProp (jsonBodyOf b) k = Arr (filter isUploadPath (elems (getProp b k)))
              \<and> (\<forall>e \<in> set (elems (getProp (jsonBodyOf b) k)).
                    \<exists>path. e = Str path \<and> startsWith path ''uploads/'')"
    by (auto simp: getProp_jsonBodyOf dest: isUploadPath_cases)
  have arr: "\<forall>k \<in> set fileFields.
         getProp (buildPayload parseFloat ac formData) k = Undefined
         \<or> isArray (getProp (buildPayload parseFloat ac formData) k)"
    using buildPayload_file_fields by blast
  have upd: "trace (handleUpdate r parseFloat ident formData s)
        = trace (handleRequest r ''PUT''
                   (apiPath (initialCollections (activeCollectionKey r)) @ ''/'' @ ident)
                   (Some (buildPayload parseFloat (initialCollections (activeCollectionKey r))
                      formData)) s)"
    by (simp add: handleUpdate_def Let_def)
  have arr': "\<forall>k \<in> set fileFields.
         getProp (AList.delete ''id'' (buildPayload parseFloat ac formData)) k = Undefined
         \<or> isArray (getProp (AList.delete ''id'' (buildPayload parseFloat ac formData)) k)"
  proof
    fix k assume k: "k \<in> set fileFields"
    then have "k \<noteq> ''id''" by (auto simp: fileFields_def)
    then show "getProp (AList.delete ''id'' (buildPayload parseFloat ac formData)) k = Undefined
         \<or> isArray (getProp (AList.delete ''id'' (buildPayload parseFloat ac formData)) k)"
      using buildPayload_file_fields [OF k] by (simp add: getProp_delete_id)
  qed
  have cre: "list_all (requiredOk (activeCollectionKey r) (newItemData r))
          (requiredFields (initialCollections (activeCollectionKey r))) \<longrightarrow>
        trace (handleCreate r parseFloat s)
          = trace (handleRequest r ''POST'' (apiPath (initialCollections (activeCollectionKey r)))
                     (Some (AList.delete ''id''
                        (buildPayload parseFloat (initialCollections (activeCollectionKey r))
                           (newItemData r)))) s)"
    by (simp add: handleCreate_def Let_def)
  from hf form bin ret json paths arr arr' upd cre show ?thesis by blast
qed

theorem C6_request_format_by_local_entries_witness:
  "trace (handleRequest productsShown ''PUT'' ''/api/products/7'' (Some mixedPayload) productsShown) =
     [NetCall \<lparr> req_method = ''PUT'',
        req_url = ''https://product-db-back.azurewebsites.net/api/products/7'',
        req_contentTypeJson = False, req_authorization = ''Bearer tok'',
        req_body = FormBody
          [Text ''product_name'' (Str ''Sensor A1''),
           Text ''product_pictures_retained'' (Str ''uploads/a.png''),
           Binary ''product_pictures'' ''b.png'' 2] \<rparr>]
   \<and> trace (handleRequest productsShown ''PUT'' ''/api/products/7'' (Some remotePayload) productsShown) =
     [NetCall \<lparr> req_method = ''PUT'',
        req_url = ''https://product-db-back.azurewebsites.net/api/products/7'',
        req_contentTypeJson = True, req_authorization = ''Bearer tok'',
        req_body = JsonBody
          [(''product_name'', Str ''Sensor A1''),
           (''product_pictures'', Arr [Str ''uploads/a.png''])] \<rparr>]"
proof -
  have token: "\<not> noToken (authToken productsShown)" by code_simp
  have local: "hasFile (Some mixedPayload)" by code_simp
  have remote: "\<not> hasFile (Some remotePayload)" by code_simp
  have start: "trace productsShown = []" by code_simp
  have auth: "bearer (authToken productsShown) = ''Bearer tok''" by code_simp
  have url: "BASE_API_URL @ ''/api/products/7''
      = ''https://product-db-back.azurewebsites.net/api/products/7''"
    by code_simp
  have form: "formDataOf mixedPayload =
        [Text ''product_name'' (Str ''Sensor A1''),
         Text ''product_pictures_retained'' (Str ''uploads/a.png''),
         Binary ''product_pictures'' ''b.png'' 2]"
    by code_simp
  have json: "jsonBodyOf remotePayload =
        [(''product_name'', Str ''Sensor A1''),
         (''product_pictures'', Arr [Str ''uploads/a.png''])]"
    by code_simp
  have m: "trace (handleRequest productsShown ''PUT'' ''/api/products/7'' (Some mixedPayload) productsShown)
      = trace productsShown @
          [NetCall \<lparr> req_method = ''PUT'', req_url = BASE_API_URL @ ''/api/products/7'',
             req_contentTypeJson = False, req_authorization = bearer (authToken productsShown),
             req_body = FormBody (formDataOf mixedPayload) \<rparr>]"
    using C6_request_format_by_local_entries [OF token, where b = mixedPayload] local by blast
  have j: "trace (handleRequest productsShown ''PUT'' ''/api/products/7'' (Some remotePayload) productsShown)
      = trace productsShown @
          [NetCall \<lparr> req_method = ''PUT'', req_url = BASE_API_URL @ ''/api/products/7'',
             req_contentTypeJson = True, req_authorization = bearer (authToken productsShown),
             req_body = JsonBody (jsonBodyOf remotePayload) \<rparr>]"
    using C6_request_format_by_local_entries [OF token, where b = remotePayload] remote by blast
  show ?thesis
    unfolding m j start auth url form json by simp
qed

section \<open>Validation of a create\<close>

lemma required_not_exempt:
  "field \<in> set (requiredFields (initialCollections key)) \<Longrightarrow>
   \<not> (key = products \<and> field = ''prod_if_customer_in_china'')"
  by (cases key) auto

lemma empty_array_iff: "(isArray v \<and> elems v = []) = (v = Arr [])"
  by (cases v) simp_all

lemma reportedMissing_required:
  assumes "field \<in> set (requiredFields (initialCollections key))"
  shows "reportedMissing key d field =
           (if strIncludes (getFieldType field) ''file'' then getProp d field = Arr []
            else \<not> truthy (getProp d field))"
  using required_not_exempt [OF assms]
  by (auto simp: reportedMissing_def Let_def empty_array_iff)

lemma reportedMissing_not_ok: "reportedMissing key d field \<Longrightarrow> \<not> requiredOk key d field"
  by (auto simp: reportedMissing_def requiredOk_def Let_def split: if_splits)

text \<open>
  C7. Call a required field of the active collection missing when its value is empty
  (\<open>!value\<close>) or, for an attachment field, when it holds the empty array. If at least one
  required field is missing, \<open>handleCreate\<close> sends nothing over the network, and the
  error it shows is one message that lists every missing required field, in the order of
  the registry, separated by commas.
\<close>

theorem C7_missing_required_fields_block_create:
  assumes "\<exists>field \<in> set (requiredFields (initialCollections (activeCollectionKey r))).
             (if strIncludes (getFieldType field) ''file''
              then getProp (newItemData r) field = Arr []
              else \<not> truthy (getProp (newItemData r) field))"
  shows "trace (handleCreate r parseFloat s) = trace s
       \<and> apiError (handleCreate r parseFloat s) =
           Some (''Missing required fields: '' @ join '', ''
             (filter (\<lambda>field. if strIncludes (getFieldType field) ''file''
                              then getProp (newItemData r) field = Arr []
                              else \<not> truthy (getProp (newItemData r) field))
                (requiredFields (initialCollections (activeCollectionKey r)))))"
proof -
  let ?req = "requiredFields (initialCollections (activeCollectionKey r))"
  let ?missing = "\<lambda>field. if strIncludes (getFieldType field) ''file''
                              then getProp (newItemData r) field = Arr []
                              else \<not> truthy (getProp (newItemData r) field)"
  have same: "filter (reportedMissing (activeCollectionKey r) (newItemData r)) ?req = filter ?missing ?req"
    by (rule filter_cong) (simp_all add: reportedMissing_required)
  from assms obtain field where f: "field \<in> set ?req" and m: "?missing field" by blast
  then have "reportedMissing (activeCollectionKey r) (newItemData r) field"
    by (simp add: reportedMissing_required)
  then have "\<not> requiredOk (activeCollectionKey r) (newItemData r) field"
    by (rule reportedMissing_not_ok)
  with f have "\<not> list_all (requiredOk (activeCollectionKey r) (newItemData r)) ?req"
    by (auto simp: list_all_iff)
  then show ?thesis
    using same by (simp add: handleCreate_def Let_def)
qed

theorem C7_missing_required_fields_block_create_witness:
  "trace (handleCreate nothingFilled (\<lambda>v. v) nothingFilled) = []
   \<and> apiError (handleCreate nothingFilled (\<lambda>v. v) nothingFilled)
        = Some ''Missing required fields: product_name, product_line''"
proof -
  have pre: "\<exists>field \<in> set (requiredFields (initialCollections (activeCollectionKey nothingFilled))).
             (if strIncludes (getFieldType field) ''file''
              then getProp (newItemData nothingFilled) field = Arr []
              else \<not> truthy (getProp (newItemData nothingFilled) field))"
    by code_simp
  have tr: "trace nothingFilled = []" by code_simp
  have msg: "''Missing required fields: '' @ join '', ''
             (filter (\<lambda>field. if strIncludes (getFieldType field) ''file''
                              then getProp (newItemData nothingFilled) field = Arr []
                              else \<not> truthy (getProp (newItemData nothingFilled) field))
                (requiredFields (initialCollections (activeCollectionKey nothingFilled))))
        = ''Missing required fields: product_name, product_line''"
    by code_simp
  show ?thesis
    using C7_missing_required_fields_block_create [OF pre, of "\<lambda>v. v" nothingFilled]
    unfolding tr msg .
qed

text \<open>With every required field filled in, the same handler does send its request.\<close>

lemma handleCreate_complete_form_sends:
  "trace (handleCreate allFilled (\<lambda>v. v) allFilled) =
     [NetCall \<lparr> req_method = ''POST'',
        req_url = ''https://product-db-back.azurewebsites.net/api/products'',
        req_contentTypeJson = True, req_authorization = ''Bearer tok'',
        req_body = JsonBody
          [(''product_name'', Str ''Sensor C3''), (''product_line'', Str ''Engine Line X''),
           (''description'', Str []), (''capacity'', Str []), (''gmdc_pct'', Num 0),
           (''product_pictures'', Arr [])] \<rparr>]"
  by code_simp

section \<open>Adding and removing a local attachment\<close>

lemma getProp_setprop: "getProp (setprop obj key v) key = v"
  by (simp add: getProp_def setprop_def update_conv')

lemma removeIndex_single: "removeIndex 0 [x] = []"
  by (simp add: removeIndex_def)

lemma setprop_restore:
  assumes "getProp obj key = Arr []"
  shows "setprop (setprop obj key v) key (Arr []) = obj"
proof -
  have "map_of obj key = Some (Arr [])"
    using assms by (cases "map_of obj key") (simp_all add: getProp_def)
  then show ?thesis
    by (simp add: setprop_def update_triv)
qed

text \<open>
  C9. Let the attachment field of the form hold an array with no path under
  \<open>uploads/\<close> and no \<open>File\<close> in it. Selecting one file makes the field hold that file
  alone; removing index 0 among the new files then leaves the field empty, and when the
  field was the empty array to begin with, the whole form is as it was.
\<close>

theorem C9_add_local_then_remove_it:
  assumes "getProp formData field = Arr es"
    and "\<forall>e \<in> set es. \<not> isUploadPath e \<and> \<not> isFile e"
  shows "\<exists>fd. handleFileChange field (Arr [File n blob]) formData formData = Inr fd
          \<and> getProp fd field = Arr [File n blob]
          \<and> getProp (handleRemoveFile field 0 True fd fd) field = Arr []
          \<and> (es = [] \<longrightarrow> handleRemoveFile field 0 True fd fd = formData)"
proof -
  have none: "filter isUploadPath es = []"
    using assms(2) by (simp add: filter_empty_conv)
  let ?fd = "setprop formData field (Arr [File n blob])"
  have step1: "handleFileChange field (Arr [File n blob]) formData formData = Inr ?fd"
    using assms(1) none by (simp add: handleFileChange_def Let_def)
  have after: "getProp ?fd field = Arr [File n blob]"
    by (rule getProp_setprop)
  have step2: "handleRemoveFile field 0 True ?fd ?fd = setprop ?fd field (Arr [])"
    by (simp add: handleRemoveFile_def Let_def after removeIndex_single)
  have empty: "getProp (handleRemoveFile field 0 True ?fd ?fd) field = Arr []"
    unfolding step2 by (rule getProp_setprop)
  have restore: "es = [] \<longrightarrow> handleRemoveFile field 0 True ?fd ?fd = formData"
    unfolding step2 using assms(1) by (auto intro: setprop_restore)
  from step1 after empty restore show ?thesis by blast
qed

theorem C9_add_local_then_remove_it_witness:
  "handleFileChange ''attachments_raw'' (Arr [File ''drawing.pdf'' 1]) modalForm modalForm
     = Inr [(''id'', Num 1), (''name'', Str ''Engine Line X''),
            (''attachments_raw'', Arr [File ''drawing.pdf'' 1])]
   \<and> handleRemoveFile ''attachments_raw'' 0 True
        [(''id'', Num 1), (''name'', Str ''Engine Line X''),
         (''attachments_raw'', Arr [File ''drawing.pdf'' 1])]
        [(''id'', Num 1), (''name'', Str ''Engine Line X''),
         (''attachments_raw'', Arr [File ''drawing.pdf'' 1])]
     = modalForm"
proof -
  have a: "getProp modalForm ''attachments_raw'' = Arr []" by code_simp
  have b: "\<forall>e \<in> set ([] :: jsvalue list). \<not> isUploadPath e \<and> \<not> isFile e" by simp
  have c: "handleFileChange ''attachments_raw'' (Arr [File ''drawing.pdf'' 1]) modalForm modalForm
     = Inr [(''id'', Num 1), (''name'', Str ''Engine Line X''),
            (''attachments_raw'', Arr [File ''drawing.pdf'' 1])]"
    by code_simp
  show ?thesis
    using C9_add_local_then_remove_it [OF a b, of "''drawing.pdf''" 1] c by auto
qed

end
